theory Spec2Isabelle
  imports Complex_Main "HOL-Library.Word" "HOL-Library.Signed_Division" "HOL-Library.AList"
begin

section \<open>Value model (vm.h)\<close>

text \<open>
  Pointers. A \<^verbatim>\<open>void*\<close> is null, a block handed out by \<^verbatim>\<open>std::malloc\<close> (numbered in
  allocation order), or an integer that was \<^verbatim>\<open>reinterpret_cast\<close> to a pointer. A
  \<^verbatim>\<open>ManagedObject*\<close> is null (\<open>None\<close>) or the index of an object in the store of
  objects created by \<^verbatim>\<open>new ManagedObject\<close>.
\<close>

datatype raw_ptr = NullPtr | Block nat | IntAddr "64 word"

type_synonym obj_ref = "nat option"

record ManagedObject =
  data :: raw_ptr
  mo_type :: string
  mo_size :: nat
  marked :: bool

record PointerValue =
  obj :: obj_ref
  ptr :: raw_ptr
  pv_type :: string
  isNull :: bool
  isWeak :: bool
  isRef :: bool

text \<open>
  \<^verbatim>\<open>using Value = std::variant<int, double, bool, std::string, std::nullptr_t, int64_t,
  PointerValue, ListValue, DictValue>\<close>. A \<^verbatim>\<open>double\<close> is modelled by a real number:
  rounding, infinities and NaN are not represented, and nothing proved below depends on
  them (only the tests against \<open>0.0\<close> are used). An \<^verbatim>\<open>unordered_map\<close> payload of a
  dictionary is an association list.
\<close>

datatype Value =
    IntV "32 word"
  | DoubleV real
  | BoolV bool
  | StringV string
  | NullV
  | LongV "64 word"
  | PointerV PointerValue
  | ListV "Value list"
  | DictV "(string \<times> Value) list"

datatype vm_error =
    RuntimeError string int
  | TypeError string int
  | AccessError string int
  | MemoryError string int
  | InvalidFree raw_ptr
  | DivisionOverflow
  | NotModelled string

text \<open>The three constructors of \<^verbatim>\<open>PointerValue\<close> (vm.h, lines 68-72).\<close>

definition PointerValue_default :: PointerValue where
  "PointerValue_default =
     \<lparr>obj = None, ptr = NullPtr, pv_type = [], isNull = True, isWeak = False, isRef = False\<rparr>"

definition PointerValue_obj ::
  "(nat \<rightharpoonup> ManagedObject) \<Rightarrow> obj_ref \<Rightarrow> string \<Rightarrow> bool \<Rightarrow> bool \<Rightarrow> PointerValue" where
  "PointerValue_obj store o' t weak ref =
     \<lparr>obj = o',
      ptr = (case o' of None \<Rightarrow> NullPtr
             | Some i \<Rightarrow> (case store i of Some m \<Rightarrow> data m | None \<Rightarrow> NullPtr)),
      pv_type = t, isNull = (o' = None), isWeak = weak, isRef = ref\<rparr>"

definition PointerValue_raw :: "raw_ptr \<Rightarrow> string \<Rightarrow> bool \<Rightarrow> bool \<Rightarrow> PointerValue" where
  "PointerValue_raw p t weak ref =
     \<lparr>obj = None, ptr = p, pv_type = t, isNull = (p = NullPtr), isWeak = weak, isRef = ref\<rparr>"

section \<open>Coercions (vm.cpp)\<close>

text \<open>\<^verbatim>\<open>reinterpret_cast<int64_t>(void*)\<close>: the address of a malloc block is not fixed by
  the program; the model takes it as a parameter \<open>addr_of\<close>.\<close>

definition ptr_to_int64 :: "(nat \<Rightarrow> 64 word) \<Rightarrow> raw_ptr \<Rightarrow> 64 word" where
  "ptr_to_int64 addr_of p =
     (case p of NullPtr \<Rightarrow> 0 | Block n \<Rightarrow> addr_of n | IntAddr w \<Rightarrow> w)"

definition getBoolValue :: "Value \<Rightarrow> bool" where
  "getBoolValue v =
     (case v of
        IntV i \<Rightarrow> i \<noteq> 0
      | LongV l \<Rightarrow> l \<noteq> 0
      | DoubleV d \<Rightarrow> d \<noteq> 0
      | BoolV b \<Rightarrow> b
      | StringV s \<Rightarrow> s \<noteq> []
      | NullV \<Rightarrow> False
      | ListV xs \<Rightarrow> xs \<noteq> []
      | DictV kvs \<Rightarrow> kvs \<noteq> []
      | PointerV p \<Rightarrow> False)"

definition getDoubleValue :: "Value \<Rightarrow> real" where
  "getDoubleValue v =
     (case v of
        DoubleV d \<Rightarrow> d
      | IntV i \<Rightarrow> real_of_int (sint i)
      | LongV l \<Rightarrow> real_of_int (sint l)
      | BoolV b \<Rightarrow> (if b then 1 else 0)
      | ListV xs \<Rightarrow> real (length xs)
      | DictV kvs \<Rightarrow> real (length kvs)
      | _ \<Rightarrow> 0)"

definition getInt64Value :: "(nat \<Rightarrow> 64 word) \<Rightarrow> Value \<Rightarrow> 64 word" where
  "getInt64Value addr_of v =
     (case v of
        LongV l \<Rightarrow> l
      | IntV i \<Rightarrow> scast i
      | BoolV b \<Rightarrow> (if b then 1 else 0)
      | PointerV p \<Rightarrow> ptr_to_int64 addr_of (ptr p)
      | ListV xs \<Rightarrow> word_of_nat (length xs)
      | DictV kvs \<Rightarrow> word_of_nat (length kvs)
      | _ \<Rightarrow> 0)"

section \<open>Binary operations (vm.cpp, performBinaryOperation)\<close>

text \<open>
  C++ \<^verbatim>\<open>/\<close> and \<^verbatim>\<open>%\<close> on \<^verbatim>\<open>int64_t\<close> truncate towards zero. The quotient of
  \<^verbatim>\<open>INT64_MIN\<close> by -1 does not fit in an \<^verbatim>\<open>int64_t\<close>: there the division overflows, and
  so does the remainder, which the same machine instruction computes; this is undefined
  in C++ and the process is stopped by a trap on x86-64. \<open>sdiv64\<close> and \<open>smod64\<close>
  have no value there, nor for a zero divisor, and the interpreter reports the overflow
  as the error \<open>DivisionOverflow\<close>. For \<open>+\<close>, \<open>-\<close> and \<open>*\<close>, where signed overflow
  is undefined too but does not trap, the model takes the two's-complement result.
\<close>

definition div_overflows :: "64 word \<Rightarrow> 64 word \<Rightarrow> bool" where
  "div_overflows a b = (sint a = - (2 ^ 63) \<and> sint b = - 1)"

definition sdiv64 :: "64 word \<Rightarrow> 64 word \<Rightarrow> 64 word option" where
  "sdiv64 a b =
     (if b = 0 \<or> div_overflows a b then None else Some (word_of_int (sint a sdiv sint b)))"

definition smod64 :: "64 word \<Rightarrow> 64 word \<Rightarrow> 64 word option" where
  "smod64 a b =
     (if b = 0 \<or> div_overflows a b then None else Some (word_of_int (sint a smod sint b)))"

definition is_int_value :: "Value \<Rightarrow> bool" where
  "is_int_value v = (case v of IntV _ \<Rightarrow> True | LongV _ \<Rightarrow> True | _ \<Rightarrow> False)"

definition is_double :: "Value \<Rightarrow> bool" where
  "is_double v = (case v of DoubleV _ \<Rightarrow> True | _ \<Rightarrow> False)"

definition is_string :: "Value \<Rightarrow> bool" where
  "is_string v = (case v of StringV _ \<Rightarrow> True | _ \<Rightarrow> False)"

definition is_pointer :: "Value \<Rightarrow> bool" where
  "is_pointer v = (case v of PointerV _ \<Rightarrow> True | _ \<Rightarrow> False)"

definition is_list :: "Value \<Rightarrow> bool" where
  "is_list v = (case v of ListV _ \<Rightarrow> True | _ \<Rightarrow> False)"

definition is_dict :: "Value \<Rightarrow> bool" where
  "is_dict v = (case v of DictV _ \<Rightarrow> True | _ \<Rightarrow> False)"

definition double_binop :: "real \<Rightarrow> real \<Rightarrow> string \<Rightarrow> int \<Rightarrow> vm_error + Value" where
  "double_binop leftVal rightVal op line =
     (if op = ''+'' then Inr (DoubleV (leftVal + rightVal))
      else if op = ''-'' then Inr (DoubleV (leftVal - rightVal))
      else if op = ''*'' then Inr (DoubleV (leftVal * rightVal))
      else if op = ''/'' then
        (if rightVal = 0 then Inl (RuntimeError ''Division by zero error'' line)
         else Inr (DoubleV (leftVal / rightVal)))
      else if op = ''=='' then Inr (BoolV (leftVal = rightVal))
      else if op = ''!='' then Inr (BoolV (leftVal \<noteq> rightVal))
      else if op = ''<'' then Inr (BoolV (leftVal < rightVal))
      else if op = ''>'' then Inr (BoolV (leftVal > rightVal))
      else if op = ''<='' then Inr (BoolV (leftVal \<le> rightVal))
      else if op = ''>='' then Inr (BoolV (leftVal \<ge> rightVal))
      else if op = ''and'' \<or> op = ''&&'' then Inr (BoolV (leftVal \<noteq> 0 \<and> rightVal \<noteq> 0))
      else if op = ''or'' \<or> op = ''||'' then Inr (BoolV (leftVal \<noteq> 0 \<or> rightVal \<noteq> 0))
      else Inl (TypeError (''Unsupported operator for floating point: '' @ op) line))"

definition int_binop :: "64 word \<Rightarrow> 64 word \<Rightarrow> string \<Rightarrow> int \<Rightarrow> vm_error + Value" where
  "int_binop leftVal rightVal op line =
     (if op = ''+'' then Inr (LongV (leftVal + rightVal))
      else if op = ''-'' then Inr (LongV (leftVal - rightVal))
      else if op = ''*'' then Inr (LongV (leftVal * rightVal))
      else if op = ''/'' then
        (if rightVal = 0 then Inl (RuntimeError ''Division by zero error'' line)
         else
           (case sdiv64 leftVal rightVal of
              None \<Rightarrow> Inl DivisionOverflow
            | Some q \<Rightarrow> Inr (LongV q)))
      else if op = ''%'' then
        (if rightVal = 0 then Inl (RuntimeError ''Modulo by zero error'' line)
         else
           (case smod64 leftVal rightVal of
              None \<Rightarrow> Inl DivisionOverflow
            | Some r \<Rightarrow> Inr (LongV r)))
      else if op = ''=='' then Inr (BoolV (leftVal = rightVal))
      else if op = ''!='' then Inr (BoolV (leftVal \<noteq> rightVal))
      else if op = ''<'' then Inr (BoolV (sint leftVal < sint rightVal))
      else if op = ''>'' then Inr (BoolV (sint leftVal > sint rightVal))
      else if op = ''<='' then Inr (BoolV (sint leftVal \<le> sint rightVal))
      else if op = ''>='' then Inr (BoolV (sint leftVal \<ge> sint rightVal))
      else if op = ''and'' \<or> op = ''&&'' then Inr (BoolV (leftVal \<noteq> 0 \<and> rightVal \<noteq> 0))
      else if op = ''or'' \<or> op = ''||'' then Inr (BoolV (leftVal \<noteq> 0 \<or> rightVal \<noteq> 0))
      else Inl (TypeError (''Unsupported operator for integer: '' @ op) line))"

definition string_binop :: "string \<Rightarrow> string \<Rightarrow> string \<Rightarrow> int \<Rightarrow> vm_error + Value" where
  "string_binop l r op line =
     (if op = ''+'' then Inr (StringV (l @ r))
      else if op = ''=='' then Inr (BoolV (l = r))
      else if op = ''!='' then Inr (BoolV (l \<noteq> r))
      else Inl (TypeError (''Unsupported operator for string: '' @ op) line))"

definition null_side :: "Value \<Rightarrow> bool" where
  "null_side v = (case v of PointerV p \<Rightarrow> isNull p | _ \<Rightarrow> True)"

definition pointer_binop :: "Value \<Rightarrow> Value \<Rightarrow> string \<Rightarrow> int \<Rightarrow> vm_error + Value" where
  "pointer_binop left right op line =
     (if op = ''=='' then
        (case (left, right) of
           (PointerV lptr, PointerV rptr) \<Rightarrow> Inr (BoolV (ptr lptr = ptr rptr))
         | _ \<Rightarrow> Inr (BoolV (null_side left \<and> null_side right)))
      else if op = ''!='' then
        (case (left, right) of
           (PointerV lptr, PointerV rptr) \<Rightarrow> Inr (BoolV (ptr lptr \<noteq> ptr rptr))
         | _ \<Rightarrow> Inr (BoolV (null_side left \<noteq> null_side right)))
      else if op = ''='' \<and> is_pointer right then Inr right
      else Inl (TypeError (''Unsupported operator for pointer: '' @ op) line))"

text \<open>The repetition loop \<^verbatim>\<open>for (int64_t i = 0; i < repetitions; ++i)\<close>.\<close>

definition list_repeat :: "int \<Rightarrow> Value list \<Rightarrow> Value list" where
  "list_repeat n xs = concat (replicate (nat n) xs)"

definition dict_equal :: "(string \<times> Value) list \<Rightarrow> (string \<times> Value) list \<Rightarrow> bool" where
  "dict_equal l r =
     (length l = length r \<and> list_all (\<lambda>(k, v). map_of r k = Some v) l)"

definition performBinaryOperation ::
  "(nat \<Rightarrow> 64 word) \<Rightarrow> Value \<Rightarrow> Value \<Rightarrow> string \<Rightarrow> int \<Rightarrow> vm_error + Value" where
  "performBinaryOperation addr_of left right op line =
     (if is_double left \<or> is_double right then
        double_binop (getDoubleValue left) (getDoubleValue right) op line
      else if is_int_value left \<and> is_int_value right then
        int_binop (getInt64Value addr_of left) (getInt64Value addr_of right) op line
      else if is_string left \<and> is_string right then
        (case (left, right) of
           (StringV l, StringV r) \<Rightarrow> string_binop l r op line
         | _ \<Rightarrow> Inr (IntV 0))
      else if is_pointer left \<or> is_pointer right then pointer_binop left right op line
      else if is_list left \<and> is_list right \<and> op = ''+'' then
        (case (left, right) of
           (ListV l, ListV r) \<Rightarrow> Inr (ListV (l @ r))
         | _ \<Rightarrow> Inr (IntV 0))
      else if is_list left \<and> op = ''*'' then
        (case (left, right) of
           (ListV l, IntV n) \<Rightarrow> Inr (ListV (list_repeat (sint n) l))
         | (ListV l, LongV n) \<Rightarrow> Inr (ListV (list_repeat (sint n) l))
         | _ \<Rightarrow> Inr (IntV 0))
      else if is_dict left \<and> op = ''=='' then
        (case (left, right) of
           (DictV l, DictV r) \<Rightarrow> Inr (BoolV (dict_equal l r))
         | _ \<Rightarrow> Inr (IntV 0))
      else Inl (TypeError ''Binary operation type mismatch'' line))"

section \<open>The bool builtin (vm.cpp, registerBuiltInFunctions)\<close>

text \<open>\<^verbatim>\<open>::tolower\<close> in the C locale: the ASCII capitals are lowered, every other
  character is kept.\<close>

definition tolower :: "char \<Rightarrow> char" where
  "tolower c =
     (let n = (of_char c :: nat) in if 65 \<le> n \<and> n \<le> 90 then char_of (n + 32) else c)"

definition builtin_bool :: "Value list \<Rightarrow> Value" where
  "builtin_bool args =
     (case args of
        [] \<Rightarrow> BoolV False
      | a # _ \<Rightarrow>
          (case a of
             IntV i \<Rightarrow> BoolV (i \<noteq> 0)
           | LongV l \<Rightarrow> BoolV (l \<noteq> 0)
           | DoubleV d \<Rightarrow> BoolV (d \<noteq> 0)
           | StringV s0 \<Rightarrow>
               (let s = map tolower s0 in BoolV (s \<noteq> ''false'' \<and> s \<noteq> ''0'' \<and> s \<noteq> []))
           | BoolV b \<Rightarrow> a
           | NullV \<Rightarrow> BoolV False
           | _ \<Rightarrow> BoolV False))"

section \<open>Text helpers (the standard-library calls of vm.cpp)\<close>

text \<open>\<^verbatim>\<open>std::getline\<close> in a loop: the text is cut at every newline; a last line without a
  newline is still delivered, and nothing is delivered after a final newline.\<close>

primrec getlines :: "string \<Rightarrow> string \<Rightarrow> string list" where
  "getlines [] cur = (if cur = [] then [] else [rev cur])"
| "getlines (c # cs) cur =
     (if c = CHR 0x0A then rev cur # getlines cs [] else getlines cs (c # cur))"

text \<open>\<^verbatim>\<open>isspace\<close> in the C locale, which \<^verbatim>\<open>operator>>\<close> uses to delimit tokens.\<close>

definition isspace :: "char \<Rightarrow> bool" where
  "isspace c = (c \<in> set [CHR 0x20, CHR 0x09, CHR 0x0A, CHR 0x0B, CHR 0x0C, CHR 0x0D])"

text \<open>The character set \<^verbatim>\<open>" \t\r\n"\<close> of the trimming step of parseIR.\<close>

definition trim_char :: "char \<Rightarrow> bool" where
  "trim_char c = (c \<in> set [CHR 0x20, CHR 0x09, CHR 0x0D, CHR 0x0A])"

definition trim :: "string \<Rightarrow> string" where
  "trim s = rev (dropWhile trim_char (rev (dropWhile trim_char s)))"

primrec tokens :: "string \<Rightarrow> string \<Rightarrow> string list" where
  "tokens [] cur = (if cur = [] then [] else [rev cur])"
| "tokens (c # cs) cur =
     (if isspace c then (if cur = [] then tokens cs [] else rev cur # tokens cs [])
      else tokens cs (c # cur))"

text \<open>\<^verbatim>\<open>s.find(sub) != npos\<close>.\<close>

primrec contains :: "string \<Rightarrow> string \<Rightarrow> bool" where
  "contains sub [] = (sub = [])"
| "contains sub (c # cs) = (take (length sub) (c # cs) = sub \<or> contains sub cs)"

definition isdigit :: "char \<Rightarrow> bool" where
  "isdigit c = (48 \<le> (of_char c :: nat) \<and> (of_char c :: nat) \<le> 57)"

definition digits_value :: "string \<Rightarrow> int" where
  "digits_value ds = foldl (\<lambda>acc c. acc * 10 + (int (of_char c) - 48)) 0 ds"

text \<open>\<^verbatim>\<open>std::stoi\<close>: leading white space is skipped, one sign is accepted, the longest
  run of decimal digits is converted and the rest of the text is ignored. \<open>None\<close> is
  the exception (\<^verbatim>\<open>invalid_argument\<close> without a digit, \<^verbatim>\<open>out_of_range\<close> outside
  \<^verbatim>\<open>int\<close>).\<close>

definition stoi :: "string \<Rightarrow> 32 word option" where
  "stoi s =
     (let s1 = dropWhile isspace s;
          neg = (s1 \<noteq> [] \<and> hd s1 = CHR ''-'');
          s2 = (if s1 \<noteq> [] \<and> (hd s1 = CHR ''-'' \<or> hd s1 = CHR ''+'') then tl s1 else s1);
          ds = takeWhile isdigit s2;
          n = (if neg then - digits_value ds else digits_value ds)
      in if ds = [] then None
         else if - (2 ^ 31) \<le> n \<and> n < 2 ^ 31 then Some (word_of_int n)
         else None)"

text \<open>\<^verbatim>\<open>operator<<\<close> on an integer: decimal digits, with a minus sign when negative.\<close>

fun show_nat :: "nat \<Rightarrow> string" where
  "show_nat n =
     (if n < 10 then [char_of (48 + n)] else show_nat (n div 10) @ [char_of (48 + n mod 10)])"

declare show_nat.simps [simp del]

definition show_int :: "int \<Rightarrow> string" where
  "show_int i = (if i < 0 then CHR ''-'' # show_nat (nat (- i)) else show_nat (nat i))"

section \<open>Instructions and the IR decoder (vm.h, vm.cpp parseIR)\<close>

datatype InstructionType =
    DEFVAR | LOAD | STORE | FUNC | CALL | IF | ELSE | END | WHILE | DO | RETURN
  | IMPORT | PRINT | INPUT | BINARY_OP | UNARY_OP | PUSH | POP | GOTO | LABEL
  | GC_NEW | GC_DELETE | GC_RUN | MEM_MALLOC | MEM_FREE | TRY | CATCH | BREAK
  | CONTINUE | PASS | PACKAGE | PTR_NEW | PTR_DEREF | THROW | NOP | DEBUG

record Instruction =
  itype :: InstructionType
  operand1 :: string
  operand2 :: string
  operand3 :: string
  literal :: Value
  line :: int
  operands :: "string list"

text \<open>The default constructor \<^verbatim>\<open>Instruction()\<close>: the type is NOP, the line is -1 and
  \<^verbatim>\<open>operands = std::vector<std::string>(3)\<close>, a vector of three empty strings.\<close>

definition Instruction_default :: Instruction where
  "Instruction_default =
     \<lparr>itype = NOP, operand1 = [], operand2 = [], operand3 = [], literal = NullV,
      line = - 1, operands = [[], [], []]\<rparr>"

definition mnemonic :: "string \<Rightarrow> InstructionType" where
  "mnemonic instrName =
     (if instrName = ''DEFVAR'' then DEFVAR
      else if instrName = ''LOAD'' then LOAD
      else if instrName = ''STORE'' then STORE
      else if instrName = ''FUNC'' then FUNC
      else if instrName = ''CALL'' then CALL
      else if instrName = ''IF'' then IF
      else if instrName = ''ELSE'' then ELSE
      else if instrName = ''END'' then END
      else if instrName = ''WHILE'' then WHILE
      else if instrName = ''DO'' then DO
      else if instrName = ''RETURN'' then RETURN
      else if instrName = ''IMPORT'' then IMPORT
      else if instrName = ''PRINT'' then PRINT
      else if instrName = ''INPUT'' then INPUT
      else if instrName = ''BINARY_OP'' then BINARY_OP
      else if instrName = ''UNARY_OP'' then UNARY_OP
      else if instrName = ''PUSH'' then PUSH
      else if instrName = ''POP'' then POP
      else if instrName = ''GOTO'' then GOTO
      else if instrName = ''LABEL'' then LABEL
      else if instrName = ''TRY'' then TRY
      else if instrName = ''CATCH'' then CATCH
      else if instrName = ''BREAK'' then BREAK
      else if instrName = ''CONTINUE'' then CONTINUE
      else if instrName = ''PASS'' then PASS
      else if instrName = ''PACKAGE'' then PACKAGE
      else if instrName = ''PTR_new'' then PTR_NEW
      else if instrName = ''PTR_DEREF'' then PTR_DEREF
      else if instrName = ''THROW'' then THROW
      else if instrName = ''GC_new'' then GC_NEW
      else if instrName = ''GC_delete'' then GC_DELETE
      else if instrName = ''GC_gc'' then GC_RUN
      else if instrName = ''MEM_malloc'' then MEM_MALLOC
      else if instrName = ''MEM_free'' then MEM_FREE
      else NOP)"

text \<open>One operand token: a token of length at least two that begins and ends with a
  double quote loses both quotes; any other token loses one trailing comma.\<close>

definition parse_operand :: "string \<Rightarrow> string" where
  "parse_operand operand =
     (if length operand \<ge> 2 \<and> hd operand = CHR 0x22 \<and> last operand = CHR 0x22
      then take (length operand - 2) (drop 1 operand)
      else if operand \<noteq> [] \<and> last operand = CHR '','' then butlast operand
      else operand)"

text \<open>One line of IR text; \<open>None\<close> is \<^verbatim>\<open>continue\<close>. The operands are appended with
  \<^verbatim>\<open>push_back\<close> to the vector the constructor has already filled.\<close>

definition parse_line :: "int \<Rightarrow> string \<Rightarrow> Instruction option" where
  "parse_line lineNum line0 =
     (if line0 = [] \<or> hd line0 = CHR '';'' \<or> take 2 line0 = '';;'' then None
      else if contains ''# IR BEGIN'' line0 \<or> contains ''IR END'' line0 then None
      else
        (let line1 = trim (takeWhile (\<lambda>c. c \<noteq> CHR '';'') line0) in
         if line1 = [] then None
         else
           (case tokens line1 [] of
              [] \<Rightarrow> None
            | instrName # rest \<Rightarrow>
                Some (Instruction_default
                  \<lparr>line := lineNum, itype := mnemonic instrName,
                   operands := operands Instruction_default @ map parse_operand rest\<rparr>))))"

primrec parse_lines :: "int \<Rightarrow> string list \<Rightarrow> Instruction list" where
  "parse_lines lineNum [] = []"
| "parse_lines lineNum (l # ls) =
     (case parse_line (lineNum + 1) l of
        None \<Rightarrow> parse_lines (lineNum + 1) ls
      | Some instr \<Rightarrow> instr # parse_lines (lineNum + 1) ls)"

definition parseIR :: "string \<Rightarrow> Instruction list" where
  "parseIR irCode = parse_lines 0 (getlines irCode [])"

section \<open>The collector of the virtual machine (vm_gc.h, vm_gc.cpp)\<close>

text \<open>
  \<^verbatim>\<open>VMGarbageCollector\<close> keeps \<^verbatim>\<open>unordered_set<void*> heap\<close>,
  \<^verbatim>\<open>unordered_set<void*> roots\<close> and
  \<^verbatim>\<open>unordered_map<void*, vector<void*>> references\<close>. An unordered set is modelled by
  the list of its elements in the order the iteration visits them (any order: the
  theorems below hold for every list), the map by an association list.
\<close>

record 'a VMGarbageCollector =
  heap :: "'a list"
  roots :: "'a list"
  references :: "('a \<times> 'a list) list"

text \<open>The body shared by the two marking loops of \<^verbatim>\<open>collect\<close>:
  \<^verbatim>\<open>if (heap.count(x) && reachable.insert(x).second) worklist.push_back(x)\<close>.
  The work list is a vector used as a stack; its back is the head of the list.\<close>

definition visit :: "'a list \<Rightarrow> 'a \<Rightarrow> 'a list \<times> 'a list \<Rightarrow> 'a list \<times> 'a list" where
  "visit hp r st =
     (case st of (reachable, worklist) \<Rightarrow>
        if r \<in> set hp \<and> r \<notin> set reachable then (r # reachable, r # worklist)
        else (reachable, worklist))"

definition edges_of :: "('a \<times> 'a list) list \<Rightarrow> 'a \<Rightarrow> 'a list" where
  "edges_of refs current = (case map_of refs current of None \<Rightarrow> [] | Some l \<Rightarrow> l)"

definition mark_measure :: "'a list \<Rightarrow> 'a list \<times> 'a list \<Rightarrow> nat" where
  "mark_measure hp st = 2 * card (set hp - set (fst st)) + length (snd st)"

lemma visit_measure: "mark_measure hp (visit hp r st) \<le> mark_measure hp st"
proof (cases st)
  case (Pair reachable worklist)
  show ?thesis
  proof (cases "r \<in> set hp \<and> r \<notin> set reachable")
    case True
    then have "set hp - set (r # reachable) = (set hp - set reachable) - {r}"
      and "r \<in> set hp - set reachable" by auto
    then have "card (set hp - set (r # reachable)) = card (set hp - set reachable) - 1"
      and "card (set hp - set reachable) > 0"
      by (auto simp: card_gt_0_iff)
    with True Pair show ?thesis by (simp add: visit_def mark_measure_def)
  next
    case False
    with Pair show ?thesis by (auto simp: visit_def mark_measure_def)
  qed
qed

lemma fold_visit_measure: "mark_measure hp (fold (visit hp) rs st) \<le> mark_measure hp st"
proof (induction rs arbitrary: st)
  case Nil
  show ?case by simp
next
  case (Cons r rs)
  have "mark_measure hp (fold (visit hp) rs (visit hp r st)) \<le> mark_measure hp (visit hp r st)"
    by (rule Cons.IH)
  also have "\<dots> \<le> mark_measure hp st" by (rule visit_measure)
  finally show ?case by simp
qed

function mark_loop ::
  "'a list \<Rightarrow> ('a \<times> 'a list) list \<Rightarrow> 'a list \<times> 'a list \<Rightarrow> 'a list" where
  "mark_loop hp refs (reachable, []) = reachable"
| "mark_loop hp refs (reachable, current # worklist) =
     mark_loop hp refs (fold (visit hp) (edges_of refs current) (reachable, worklist))"
  by pat_completeness auto
termination
proof (relation "measure (\<lambda>(hp, refs, st). mark_measure hp st)", goal_cases)
  case 1
  show ?case by simp
next
  case (2 hp refs reachable current worklist)
  have "mark_measure hp (fold (visit hp) (edges_of refs current) (reachable, worklist))
          \<le> mark_measure hp (reachable, worklist)"
    by (rule fold_visit_measure)
  also have "\<dots> < mark_measure hp (reachable, current # worklist)"
    by (simp add: mark_measure_def)
  finally show ?case by simp
qed

text \<open>The sweep of one unreachable cell: the entry keyed by the cell is erased from \<^verbatim>\<open>references\<close>, and the cell is removed
  from every other edge list.\<close>

definition purge :: "'a \<Rightarrow> ('a \<times> 'a list) list \<Rightarrow> ('a \<times> 'a list) list" where
  "purge x refs = map (\<lambda>(k, l). (k, removeAll x l)) (filter (\<lambda>(k, l). k \<noteq> x) refs)"

fun sweep ::
  "'a list \<Rightarrow> 'a list \<Rightarrow> ('a \<times> 'a list) list \<Rightarrow> 'a list \<times> ('a \<times> 'a list) list \<times> nat" where
  "sweep [] reachable refs = ([], refs, 0)"
| "sweep (x # xs) reachable refs =
     (if x \<notin> set reachable then
        (case sweep xs reachable (purge x refs) of (h, r, collected) \<Rightarrow> (h, r, collected + 1))
      else
        (case sweep xs reachable refs of (h, r, collected) \<Rightarrow> (x # h, r, collected)))"

text \<open>The last loop of \<^verbatim>\<open>collect\<close>: entries of cells that are gone are erased, and
  cells that are gone are removed from the remaining edge lists.\<close>

definition cleanup :: "'a list \<Rightarrow> ('a \<times> 'a list) list \<Rightarrow> ('a \<times> 'a list) list" where
  "cleanup hp refs =
     map (\<lambda>(k, l). (k, filter (\<lambda>x. x \<in> set hp) l)) (filter (\<lambda>(k, l). k \<in> set hp) refs)"

definition collect :: "'a VMGarbageCollector \<Rightarrow> nat \<times> 'a VMGarbageCollector" where
  "collect g =
     (if heap g = [] then (0, g)
      else
        (let reachable = mark_loop (heap g) (references g)
                           (fold (visit (heap g)) (roots g) ([], []))
         in case sweep (heap g) reachable (references g) of
              (h, r, collected) \<Rightarrow> (collected, g\<lparr>heap := h, references := cleanup h r\<rparr>)))"


section \<open>The process-wide collector (gc.h, gc.cpp)\<close>

text \<open>
  \<^verbatim>\<open>GarbageCollector\<close> keeps \<^verbatim>\<open>vector<GCObject*> objects\<close>, a root set and a reference
  map. A \<^verbatim>\<open>GCObject*\<close> is null (\<open>None\<close>) or an address; \<open>mark_bit\<close> is the
  \<^verbatim>\<open>marked\<close> field of the object at each address. The source writes and reads the
  field through the pointer without checking that the object is still alive; the model
  reads and writes \<open>mark_bit\<close> at that address all the same.
\<close>

type_synonym gc_ptr = "nat option"

record GarbageCollector =
  objects :: "gc_ptr list"
  rootObjects :: "gc_ptr list"
  gc_references :: "(gc_ptr \<times> gc_ptr list) list"
  mark_bit :: "nat \<Rightarrow> bool"

definition clear_marks :: "gc_ptr list \<Rightarrow> (nat \<Rightarrow> bool) \<Rightarrow> nat \<Rightarrow> bool" where
  "clear_marks objs m = (\<lambda>a. if Some a \<in> set objs then False else m a)"

definition mark_root :: "gc_ptr \<Rightarrow> (nat \<Rightarrow> bool) \<times> gc_ptr list \<Rightarrow> (nat \<Rightarrow> bool) \<times> gc_ptr list" where
  "mark_root rt st =
     (case st of (m, worklist) \<Rightarrow>
        (case rt of None \<Rightarrow> (m, worklist) | Some a \<Rightarrow> (m(a := True), rt # worklist)))"

definition mark_referenced ::
  "gc_ptr \<Rightarrow> (nat \<Rightarrow> bool) \<times> gc_ptr list \<Rightarrow> (nat \<Rightarrow> bool) \<times> gc_ptr list" where
  "mark_referenced referenced st =
     (case st of (m, worklist) \<Rightarrow>
        (case referenced of
           None \<Rightarrow> (m, worklist)
         | Some a \<Rightarrow> if \<not> m a then (m(a := True), referenced # worklist) else (m, worklist)))"

definition unmarked_targets :: "(gc_ptr \<times> gc_ptr list) list \<Rightarrow> (nat \<Rightarrow> bool) \<Rightarrow> gc_ptr set" where
  "unmarked_targets refs m =
     {r \<in> set (concat (map snd refs)). \<exists>a. r = Some a \<and> \<not> m a}"

definition gc_measure ::
  "(gc_ptr \<times> gc_ptr list) list \<Rightarrow> (nat \<Rightarrow> bool) \<times> gc_ptr list \<Rightarrow> nat" where
  "gc_measure refs st = 2 * card (unmarked_targets refs (fst st)) + length (snd st)"

lemma finite_unmarked_targets: "finite (unmarked_targets refs m)"
  by (simp add: unmarked_targets_def)

lemma mark_referenced_measure:
  assumes "r \<in> set (concat (map snd refs))"
  shows "gc_measure refs (mark_referenced r st) \<le> gc_measure refs st"
proof (cases st)
  case (Pair m worklist)
  show ?thesis
  proof (cases r)
    case None
    with Pair show ?thesis by (simp add: mark_referenced_def)
  next
    case (Some a)
    show ?thesis
    proof (cases "m a")
      case True
      with Pair Some show ?thesis by (simp add: mark_referenced_def)
    next
      case False
      have eq: "unmarked_targets refs (m(a := True)) = unmarked_targets refs m - {Some a}"
        by (auto simp: unmarked_targets_def)
      have mem: "Some a \<in> unmarked_targets refs m"
        using assms Some False by (auto simp: unmarked_targets_def)
      then have "card (unmarked_targets refs m) > 0"
        using finite_unmarked_targets card_gt_0_iff by blast
      moreover have "card (unmarked_targets refs (m(a := True))) = card (unmarked_targets refs m) - 1"
        using eq mem by (simp add: finite_unmarked_targets)
      ultimately show ?thesis
        using Pair Some False by (simp add: mark_referenced_def gc_measure_def)
    qed
  qed
qed

lemma fold_mark_referenced_measure:
  "set rs \<subseteq> set (concat (map snd refs)) \<Longrightarrow>
   gc_measure refs (fold mark_referenced rs st) \<le> gc_measure refs st"
proof (induction rs arbitrary: st)
  case Nil
  show ?case by simp
next
  case (Cons r rs)
  have "gc_measure refs (fold mark_referenced rs (mark_referenced r st))
          \<le> gc_measure refs (mark_referenced r st)"
    using Cons by simp
  also have "\<dots> \<le> gc_measure refs st"
    using Cons.prems by (intro mark_referenced_measure) simp
  finally show ?case by simp
qed

lemma edges_of_subset: "set (edges_of refs current) \<subseteq> set (concat (map snd refs))"
proof (cases "map_of refs current")
  case None
  then show ?thesis by (simp add: edges_of_def)
next
  case (Some l)
  then have "(current, l) \<in> set refs" by (rule map_of_SomeD)
  then have "set l \<subseteq> set (concat (map snd refs))" by force
  with Some show ?thesis by (simp add: edges_of_def)
qed

function gc_mark_loop ::
  "(gc_ptr \<times> gc_ptr list) list \<Rightarrow> (nat \<Rightarrow> bool) \<times> gc_ptr list \<Rightarrow> nat \<Rightarrow> bool" where
  "gc_mark_loop refs (m, []) = m"
| "gc_mark_loop refs (m, current # worklist) =
     gc_mark_loop refs (fold mark_referenced (edges_of refs current) (m, worklist))"
  by pat_completeness auto
termination
proof (relation "measure (\<lambda>(refs, st). gc_measure refs st)", goal_cases)
  case 1
  show ?case by simp
next
  case (2 refs m current worklist)
  have "gc_measure refs (fold mark_referenced (edges_of refs current) (m, worklist))
          \<le> gc_measure refs (m, worklist)"
    by (rule fold_mark_referenced_measure) (rule edges_of_subset)
  also have "\<dots> < gc_measure refs (m, current # worklist)"
    by (simp add: gc_measure_def)
  finally show ?case by simp
qed

definition gc_mark :: "GarbageCollector \<Rightarrow> GarbageCollector" where
  "gc_mark g =
     g\<lparr>mark_bit := gc_mark_loop (gc_references g)
         (fold mark_root (rootObjects g) (clear_marks (objects g) (mark_bit g), []))\<rparr>"

fun gc_sweep_loop :: "(nat \<Rightarrow> bool) \<Rightarrow> gc_ptr list \<Rightarrow> gc_ptr list \<times> int" where
  "gc_sweep_loop m [] = ([], 0)"
| "gc_sweep_loop m (ob # rest) =
     (case gc_sweep_loop m rest of (kept, collectedCount) \<Rightarrow>
        (case ob of
           Some a \<Rightarrow> if \<not> m a then (kept, collectedCount + 1) else (ob # kept, collectedCount)
         | None \<Rightarrow> (ob # kept, collectedCount)))"

definition gc_sweep :: "GarbageCollector \<Rightarrow> GarbageCollector" where
  "gc_sweep g = g\<lparr>objects := fst (gc_sweep_loop (mark_bit g) (objects g))\<rparr>"

text \<open>\<^verbatim>\<open>collect\<close> returns its own \<^verbatim>\<open>collectedCount\<close>, which it initialises to 0 and
  never changes: the counter that \<^verbatim>\<open>sweep\<close> increments is a local variable of
  \<^verbatim>\<open>sweep\<close>.\<close>

definition gc_collect :: "GarbageCollector \<Rightarrow> int \<times> GarbageCollector" where
  "gc_collect g = (let collectedCount = 0 in (collectedCount, gc_sweep (gc_mark g)))"

section \<open>Machine state (vm.h) and its environment\<close>

record FileHandle =
  filename :: string
  fh_mode :: string
  isOpen :: bool

text \<open>
  \<^verbatim>\<open>MachineState\<close> and the private members of \<^verbatim>\<open>VirtualMachine\<close>. Vectors used as stacks
  (\<open>stack\<close>, \<open>scopes\<close>) have their back at the head of the list. \<open>pc\<close> is a
  \<^verbatim>\<open>size_t\<close>. \<open>mo_store\<close> holds the objects created by \<^verbatim>\<open>new ManagedObject\<close>, by index,
  and \<open>malloc_live\<close> the blocks of \<^verbatim>\<open>std::malloc\<close> that have not been freed.
  \<open>out\<close> is what has been written to standard output (standard error is not
  modelled). Two fields stand for the environment: \<open>fs_can_open\<close> tells whether the
  file system opens a file in a mode, \<open>block_addr\<close> gives the address of a malloc block.
  \<^verbatim>\<open>useJIT\<close> is set to false by the constructor and never changed, so the JIT branch of
  \<^verbatim>\<open>execute\<close> is never taken; it is left out.
\<close>

record VM =
  pc :: "64 word"
  running :: bool
  rax :: "32 word"
  rbx :: "32 word"
  rcx :: "32 word"
  rdx :: "32 word"
  scopes :: "(string \<rightharpoonup> Value) list"
  program :: "Instruction list"
  stack :: "Value list"
  variables :: "string \<rightharpoonup> Value"
  functions_map :: "string \<rightharpoonup> 64 word"
  gc :: "raw_ptr VMGarbageCollector"
  steve_gc :: GarbageCollector
  fileHandles :: "64 word \<rightharpoonup> FileHandle"
  nextFileHandleId :: "64 word"
  managedObjects :: "(64 word \<times> nat) list"
  nextObjectId :: "64 word"
  mo_store :: "nat \<rightharpoonup> ManagedObject"
  mo_next :: nat
  malloc_live :: "nat list"
  out :: string
  fs_can_open :: "string \<Rightarrow> string \<Rightarrow> bool"
  block_addr :: "nat \<Rightarrow> 64 word"

text \<open>The constructor \<^verbatim>\<open>VirtualMachine()\<close>, with the global collector \<^verbatim>\<open>steve::gc\<close> as
  it is at program start.\<close>

definition VM_init :: "(string \<Rightarrow> string \<Rightarrow> bool) \<Rightarrow> (nat \<Rightarrow> 64 word) \<Rightarrow> VM" where
  "VM_init fs addr_of =
     \<lparr>pc = 0, running = False, rax = 0, rbx = 0, rcx = 0, rdx = 0,
      scopes = [Map.empty], program = [], stack = [], variables = Map.empty,
      functions_map = Map.empty,
      gc = \<lparr>heap = [], roots = [], references = []\<rparr>,
      steve_gc = \<lparr>objects = [], rootObjects = [], gc_references = [], mark_bit = (\<lambda>_. False)\<rparr>,
      fileHandles = Map.empty, nextFileHandleId = 1000, managedObjects = [],
      nextObjectId = 1, mo_store = Map.empty, mo_next = 0, malloc_live = [],
      out = [], fs_can_open = fs, block_addr = addr_of\<rparr>"

type_synonym 'a result = "(vm_error \<times> VM) + 'a"

definition throw :: "vm_error \<Rightarrow> VM \<Rightarrow> 'a result" where
  "throw e s = Inl (e, s)"

definition push_back :: "Value \<Rightarrow> VM \<Rightarrow> VM" where
  "push_back v s = s\<lparr>stack := v # stack s\<rparr>"

definition pop_back :: "VM \<Rightarrow> VM" where
  "pop_back s = s\<lparr>stack := tl (stack s)\<rparr>"

definition print_out :: "string \<Rightarrow> VM \<Rightarrow> VM" where
  "print_out txt s = s\<lparr>out := out s @ txt\<rparr>"

section \<open>File builtins (vm.cpp, registerBuiltInFunctions)\<close>

text \<open>\<^verbatim>\<open>std::free\<close>, as the destructor of \<^verbatim>\<open>ManagedObject\<close> calls it under
  \<^verbatim>\<open>if (data)\<close>. Freeing anything but a live malloc block is undefined behaviour in
  C++; the model reports it as the error \<open>InvalidFree\<close>.\<close>

definition is_null_ptr :: "raw_ptr \<Rightarrow> bool" where
  "is_null_ptr p = (case p of NullPtr \<Rightarrow> True | IntAddr w \<Rightarrow> w = 0 | Block _ \<Rightarrow> False)"

definition destroy_ManagedObject :: "ManagedObject \<Rightarrow> VM \<Rightarrow> VM result" where
  "destroy_ManagedObject m s =
     (if is_null_ptr (data m) then Inr s
      else
        (case data m of
           Block n \<Rightarrow>
             if n \<in> set (malloc_live s) then Inr (s\<lparr>malloc_live := removeAll n (malloc_live s)\<rparr>)
             else throw (InvalidFree (data m)) s
         | _ \<Rightarrow> throw (InvalidFree (data m)) s))"

text \<open>\<^verbatim>\<open>new ManagedObject(d, t, sz)\<close>.\<close>

definition new_ManagedObject :: "raw_ptr \<Rightarrow> string \<Rightarrow> nat \<Rightarrow> VM \<Rightarrow> nat \<times> VM" where
  "new_ManagedObject d t sz s =
     (mo_next s,
      s\<lparr>mo_store := (mo_store s)(mo_next s \<mapsto> \<lparr>data = d, mo_type = t, mo_size = sz, marked = False\<rparr>),
        mo_next := mo_next s + 1\<rparr>)"

definition open_file :: "string \<Rightarrow> string \<Rightarrow> VM \<Rightarrow> Value \<times> VM" where
  "open_file fname md s =
     (if fs_can_open s fname md then
        (let handleId = nextFileHandleId s;
             s1 = s\<lparr>nextFileHandleId := nextFileHandleId s + 1,
                    fileHandles := (fileHandles s)(handleId \<mapsto>
                       \<lparr>filename = fname, fh_mode = md, isOpen = True\<rparr>)\<rparr>;
             (ob, s2) = new_ManagedObject (IntAddr handleId) ''file'' 8 s1;
             p = PointerValue_obj (mo_store s2) (Some ob) ''file'' False False
         in (PointerV p, s2\<lparr>managedObjects := AList.update handleId ob (managedObjects s2)\<rparr>))
      else (PointerV PointerValue_default, s))"

definition builtin_open :: "Value list \<Rightarrow> VM \<Rightarrow> Value \<times> VM" where
  "builtin_open args s =
     (if length args \<ge> 2 then
        (case (args ! 0, args ! 1) of
           (StringV fname, StringV md) \<Rightarrow> open_file fname md s
         | _ \<Rightarrow> (PointerV PointerValue_default, s))
      else
        (case args of
           StringV fname # _ \<Rightarrow> open_file fname ''r'' s
         | _ \<Rightarrow> (PointerV PointerValue_default, s)))"

text \<open>The loop of \<^verbatim>\<open>close\<close> over \<^verbatim>\<open>managedObjects\<close>: the first entry whose object has
  \<^verbatim>\<open>data == reinterpret_cast<void*>(handleId)\<close> is deleted and erased.\<close>

fun remove_managed :: "64 word \<Rightarrow> (64 word \<times> nat) list \<Rightarrow> VM \<Rightarrow> VM result" where
  "remove_managed handleId [] s = Inr s"
| "remove_managed handleId ((k, ob) # rest) s =
     (case mo_store s ob of
        None \<Rightarrow> throw (NotModelled ''read through a dangling ManagedObject pointer'') s
      | Some m \<Rightarrow>
          if ptr_to_int64 (block_addr s) (data m) = handleId then
            (case destroy_ManagedObject m s of
               Inl e \<Rightarrow> Inl e
             | Inr s1 \<Rightarrow>
                 Inr (s1\<lparr>mo_store := (mo_store s1)(ob := None),
                         managedObjects := AList.delete k (managedObjects s1)\<rparr>))
          else remove_managed handleId rest s)"

definition builtin_close :: "Value list \<Rightarrow> VM \<Rightarrow> (Value \<times> VM) result" where
  "builtin_close args s =
     (case args of
        PointerV ptrVal # _ \<Rightarrow>
          if \<not> isNull ptrVal then
            (let handleId = ptr_to_int64 (block_addr s) (ptr ptrVal) in
             case fileHandles s handleId of
               Some handle \<Rightarrow>
                 (let s1 = s\<lparr>fileHandles := (fileHandles s)(handleId := None)\<rparr> in
                  case remove_managed handleId (managedObjects s1) s1 of
                    Inl e \<Rightarrow> Inl e
                  | Inr s2 \<Rightarrow> Inr (IntV 0, s2))
             | None \<Rightarrow> Inr (IntV (- 1), s))
          else Inr (IntV (- 1), s)
      | _ \<Rightarrow> Inr (IntV (- 1), s))"

section \<open>The interpreter (vm.cpp)\<close>

definition performUnaryOperation :: "Value \<Rightarrow> string \<Rightarrow> int \<Rightarrow> vm_error + Value" where
  "performUnaryOperation operand op lineNo =
     (if op = ''-'' then
        (case operand of
           IntV i \<Rightarrow> Inr (IntV (- i))
         | LongV l \<Rightarrow> Inr (LongV (- l))
         | DoubleV d \<Rightarrow> Inr (DoubleV (- d))
         | _ \<Rightarrow> Inl (TypeError ''Invalid operand type for unary minus'' lineNo))
      else if op = ''!'' \<or> op = ''not'' then Inr (BoolV (\<not> getBoolValue operand))
      else Inl (TypeError (''Unsupported unary operator: '' @ op) lineNo))"

text \<open>\<^verbatim>\<open>runGarbageCollection\<close>: the collector of the machine, then \<^verbatim>\<open>steve::gc\<close>; both
  return values are dropped.\<close>

definition runGarbageCollection :: "VM \<Rightarrow> VM" where
  "runGarbageCollection s =
     s\<lparr>gc := snd (collect (gc s)), steve_gc := snd (gc_collect (steve_gc s))\<rparr>"

text \<open>The scan of \<^verbatim>\<open>jumpToEnd\<close> from \<open>current\<close> on, over the rest of the program.\<close>

primrec find_end :: "Instruction list \<Rightarrow> nat \<Rightarrow> int \<Rightarrow> nat option" where
  "find_end [] current depth = None"
| "find_end (nextInstr # rest) current depth =
     (let depth' = (if itype nextInstr = IF \<or> itype nextInstr = WHILE then depth + 1
                    else if itype nextInstr = END then depth - 1
                    else depth)
      in if depth' = 0 then Some current else find_end rest (current + 1) depth')"

definition jumpToEnd :: "VM \<Rightarrow> VM" where
  "jumpToEnd s =
     (let current = unat (pc s + 1) in
      case find_end (drop current (program s)) current 1 of
        Some c \<Rightarrow> s\<lparr>pc := word_of_nat c\<rparr>
      | None \<Rightarrow> s\<lparr>pc := word_of_nat (length (program s)) - 1\<rparr>)"

text \<open>The search of GOTO for the first LABEL instruction with the operand \<open>label\<close>.\<close>

primrec find_label :: "Instruction list \<Rightarrow> string \<Rightarrow> nat \<Rightarrow> nat option" where
  "find_label [] label i = None"
| "find_label (instr # rest) label i =
     (if itype instr = LABEL \<and> operands instr \<noteq> [] \<and> hd (operands instr) = label
      then Some i else find_label rest label (i + 1))"

text \<open>The names registered in \<^verbatim>\<open>builtInFunctions\<close>. CALL is modelled for \<open>bool\<close>,
  \<open>open\<close> and \<open>close\<close>; it hands a builtin at most one argument.\<close>

definition builtin_names :: "string list" where
  "builtin_names =
     [''print'', ''input'', ''int'', ''float'', ''string'', ''bool'', ''new'', ''type'',
      ''hash'', ''bs'', ''run'', ''open'', ''close'', ''write'', ''read'', ''len'',
      ''substr'', ''abs'', ''pow'', ''throw'', ''list'', ''append'', ''dict_append'',
      ''del'', ''deref'']"

definition call_builtin :: "string \<Rightarrow> Value list \<Rightarrow> VM \<Rightarrow> (Value \<times> VM) result" where
  "call_builtin funcName args s =
     (if funcName = ''bool'' then Inr (builtin_bool args, s)
      else if funcName = ''open'' then Inr (builtin_open args s)
      else if funcName = ''close'' then builtin_close args s
      else throw (NotModelled (''builtin '' @ funcName)) s)"

definition print_value :: "Value \<Rightarrow> VM \<Rightarrow> VM result" where
  "print_value val s =
     (case val of
        StringV str \<Rightarrow> Inr (print_out (str @ [CHR 0x0A]) s)
      | IntV i \<Rightarrow> Inr (print_out (show_int (sint i) @ [CHR 0x0A]) s)
      | DoubleV d \<Rightarrow> throw (NotModelled ''printing a double'') s
      | BoolV b \<Rightarrow> Inr (print_out ((if b then ''true'' else ''false'') @ [CHR 0x0A]) s)
      | NullV \<Rightarrow> Inr (print_out (''null'' @ [CHR 0x0A]) s)
      | LongV l \<Rightarrow> Inr (print_out (show_int (sint l) @ [CHR 0x0A]) s)
      | _ \<Rightarrow> Inr (print_out [CHR 0x0A] s))"

text \<open>
  \<^verbatim>\<open>decodeAndExecute\<close>. An exception is \<open>Inl\<close>, with the state at the throw. Left
  out of the model, each answering \<open>NotModelled\<close>: floating-point literals
  (\<^verbatim>\<open>std::stod\<close>), INPUT, the pool allocator behind MEM_malloc and MEM_free, and the
  jump of a false IF (the text of \<^verbatim>\<open>jumpToElseOrEnd\<close> in vm.cpp is interleaved with a
  fragment of another function). \<^verbatim>\<open>language::reportError\<close> with \<open>fatal\<close> ends the
  process; it is reported as a runtime error with line -1.
\<close>

definition decodeAndExecute :: "Instruction \<Rightarrow> VM \<Rightarrow> VM result" where
  "decodeAndExecute instr s =
     (case itype instr of
        DEFVAR \<Rightarrow>
          (if operands instr \<noteq> [] then
             (let varName = takeWhile (\<lambda>c. c \<noteq> CHR '':'') (hd (operands instr))
              in Inr (s\<lparr>variables := (variables s)(varName \<mapsto> IntV 0)\<rparr>))
           else Inr s)
      | LOAD \<Rightarrow>
          (if operands instr \<noteq> [] then
             (let operand = hd (operands instr) in
              if operand \<noteq> [] \<and> hd operand = CHR 0x22 \<and> last operand = CHR 0x22 then
                Inr (push_back (StringV (take (length operand - 2) (drop 1 operand))) s)
              else if operand = ''true'' \<or> operand = ''false'' then
                Inr (push_back (BoolV (operand = ''true'')) s)
              else if operand = ''null'' then Inr (push_back NullV s)
              else if CHR ''.'' \<in> set operand then
                throw (NotModelled ''floating-point literal'') s
              else
                (case stoi operand of
                   Some i \<Rightarrow> Inr (push_back (IntV i) s)
                 | None \<Rightarrow>
                     (case variables s operand of
                        Some v \<Rightarrow> Inr (push_back v s)
                      | None \<Rightarrow> Inr (push_back (IntV 0) s))))
           else Inr s)
      | STORE \<Rightarrow>
          (if stack s = [] then
             throw (AccessError ''Stack underflow during STORE operation'' (line instr)) s
           else if operands instr = [] then
             throw (AccessError ''STORE operation missing variable name'' (line instr)) s
           else
             (let val = hd (stack s); s1 = pop_back s; varName = hd (operands instr)
              in Inr (s1\<lparr>variables := (variables s1)(varName \<mapsto> val)\<rparr>)))
      | FUNC \<Rightarrow>
          (if operands instr \<noteq> [] then
             Inr (s\<lparr>functions_map := (functions_map s)(hd (operands instr) \<mapsto> pc s),
                    scopes := Map.empty # scopes s\<rparr>)
           else Inr s)
      | CALL \<Rightarrow>
          (if operands instr \<noteq> [] then
             (let funcName = hd (operands instr) in
              if funcName \<in> set builtin_names then
                (let args = (if stack s \<noteq> [] then [hd (stack s)] else []);
                     s1 = (if stack s \<noteq> [] then pop_back s else s)
                 in case call_builtin funcName args s1 of
                      Inl e \<Rightarrow> Inl e
                    | Inr (res, s2) \<Rightarrow> Inr (push_back res s2))
              else
                (case functions_map s funcName of
                   Some target \<Rightarrow> Inr ((push_back (IntV (ucast (pc s))) s)\<lparr>pc := target\<rparr>)
                 | None \<Rightarrow>
                     throw (RuntimeError (''Undefined function: '' @ funcName) (line instr)) s))
           else Inr s)
      | IF \<Rightarrow>
          (if stack s = [] then throw (RuntimeError ''IF: Stack is empty'' (- 1)) s
           else
             (let condition = hd (stack s); s1 = pop_back s in
              if \<not> getBoolValue condition then throw (NotModelled ''jumpToElseOrEnd'') s1
              else Inr s1))
      | WHILE \<Rightarrow>
          (if stack s \<noteq> [] then
             (let condition = hd (stack s); s1 = pop_back s in
              if \<not> getBoolValue condition then Inr (jumpToEnd s1)
              else Inr (push_back (IntV (ucast (pc s1 - 1))) s1))
           else throw (AccessError ''Stack is empty during WHILE operation'' (line instr)) s)
      | ELSE \<Rightarrow> Inr (jumpToEnd s)
      | END \<Rightarrow>
          (case stack s of
             IntV loopStart # _ \<Rightarrow>
               if 0 \<le> sint loopStart
                  \<and> sint loopStart < sint (word_of_nat (length (program s)) :: 32 word)
               then Inr (s\<lparr>pc := scast loopStart\<rparr>)
               else Inr s
           | _ \<Rightarrow> Inr s)
      | DO \<Rightarrow> Inr s
      | RETURN \<Rightarrow>
          (case stack s of
             IntV returnAddr # _ \<Rightarrow>
               (let s1 = (pop_back s)\<lparr>pc := scast returnAddr\<rparr> in
                if length (scopes s1) > 1 then Inr (s1\<lparr>scopes := tl (scopes s1)\<rparr>)
                else Inr s1)
           | _ \<Rightarrow> Inr (s\<lparr>running := False\<rparr>))
      | PRINT \<Rightarrow>
          (if stack s \<noteq> [] then print_value (hd (stack s)) (pop_back s) else Inr s)
      | INPUT \<Rightarrow> throw (NotModelled ''INPUT'') s
      | GC_NEW \<Rightarrow>
          (if stack s \<noteq> [] then
             Inr (push_back (LongV (getInt64Value (block_addr s) (hd (stack s)))) (pop_back s))
           else Inr (push_back (LongV 1) s))
      | GC_DELETE \<Rightarrow> (if stack s \<noteq> [] then Inr (pop_back s) else Inr s)
      | GC_RUN \<Rightarrow> Inr (push_back (IntV 0) (runGarbageCollection s))
      | MEM_MALLOC \<Rightarrow>
          (if stack s \<noteq> [] then throw (NotModelled ''steve::malloc'') (pop_back s) else Inr s)
      | MEM_FREE \<Rightarrow>
          (if stack s \<noteq> [] then
             (let ptrVal = hd (stack s); s1 = pop_back s;
                  p = (case ptrVal of LongV l \<Rightarrow> l | IntV i \<Rightarrow> scast i | _ \<Rightarrow> 0)
              in if p \<noteq> 0 then throw (NotModelled ''steve::free'') s1 else Inr s1)
           else Inr s)
      | BINARY_OP \<Rightarrow>
          (if length (stack s) < 2 then
             throw (AccessError ''Stack underflow during BINARY_OP operation'' (line instr)) s
           else if operands instr = [] then
             throw (AccessError ''BINARY_OP operation missing operator'' (line instr)) s
           else
             (let right = hd (stack s); s1 = pop_back s;
                  left = hd (stack s1); s2 = pop_back s1
              in case performBinaryOperation (block_addr s) left right
                        (hd (operands instr)) (line instr) of
                   Inl e \<Rightarrow> throw e s2
                 | Inr res \<Rightarrow> Inr (push_back res s2)))
      | UNARY_OP \<Rightarrow>
          (if stack s = [] then
             throw (AccessError ''Stack underflow during UNARY_OP operation'' (line instr)) s
           else if operands instr = [] then
             throw (AccessError ''UNARY_OP operation missing operator'' (line instr)) s
           else
             (let operand = hd (stack s); s1 = pop_back s
              in case performUnaryOperation operand (hd (operands instr)) (line instr) of
                   Inl e \<Rightarrow> throw e s1
                 | Inr res \<Rightarrow> Inr (push_back res s1)))
      | PUSH \<Rightarrow>
          (if operands instr \<noteq> [] then
             (let operand = hd (operands instr) in
              if CHR ''.'' \<in> set operand then throw (NotModelled ''floating-point literal'') s
              else
                (case stoi operand of
                   Some i \<Rightarrow> Inr (push_back (IntV i) s)
                 | None \<Rightarrow> Inr (push_back (StringV operand) s)))
           else Inr s)
      | POP \<Rightarrow> (if stack s \<noteq> [] then Inr (pop_back s) else Inr s)
      | GOTO \<Rightarrow>
          (if operands instr \<noteq> [] then
             (let label = hd (operands instr) in
              case find_label (program s) label 0 of
                Some i \<Rightarrow> Inr (s\<lparr>pc := word_of_nat i\<rparr>)
              | None \<Rightarrow> throw (RuntimeError (''Undefined label: '' @ label) (line instr)) s)
           else Inr s)
      | PTR_NEW \<Rightarrow>
          (if stack s \<noteq> [] then
             Inr (push_back (PointerV (PointerValue_raw NullPtr ''object'' False False))
                    (pop_back s))
           else Inr (push_back (PointerV (PointerValue_raw NullPtr ''object'' False False)) s))
      | PTR_DEREF \<Rightarrow>
          (if stack s \<noteq> [] then
             (let top = hd (stack s); s1 = pop_back s in
              case top of
                PointerV p \<Rightarrow>
                  if \<not> isNull p then Inr (push_back (IntV 0) s1)
                  else throw (RuntimeError ''Cannot dereference null pointer'' (line instr)) s1
              | _ \<Rightarrow> Inr (push_back top s1))
           else Inr s)
      | THROW \<Rightarrow>
          (if stack s \<noteq> [] then
             (let exceptionValue = hd (stack s); s1 = pop_back s;
                  exceptionMsg = (case exceptionValue of StringV m \<Rightarrow> m
                                  | _ \<Rightarrow> ''Unknown exception occurred'')
              in throw (RuntimeError exceptionMsg (line instr)) s1)
           else throw (RuntimeError ''Exception thrown'' (line instr)) s)
      | IMPORT \<Rightarrow>
          (if operands instr \<noteq> [] then
             Inr (print_out (''Importing module: '' @ hd (operands instr) @ [CHR 0x0A]) s)
           else Inr s)
      | _ \<Rightarrow> Inr s)"

text \<open>
  The loop of \<^verbatim>\<open>execute\<close>:
  \<^verbatim>\<open>while (state.running && state.pc < state.program.size())\<close>, one instruction and
  \<^verbatim>\<open>state.pc++\<close> per turn. The loop need not end, so it is given fuel: \<open>None\<close> means
  that the fuel ran out before the loop ended.
\<close>

fun execute_loop :: "nat \<Rightarrow> VM \<Rightarrow> VM result option" where
  "execute_loop fuel s =
     (if running s \<and> unat (pc s) < length (program s) then
        (case fuel of
           0 \<Rightarrow> None
         | Suc n \<Rightarrow>
             (case decodeAndExecute (program s ! unat (pc s)) s of
                Inl e \<Rightarrow> Some (Inl e)
              | Inr s1 \<Rightarrow> execute_loop n (s1\<lparr>pc := pc s1 + 1\<rparr>)))
      else Some (Inr s))"

declare execute_loop.simps [simp del]

text \<open>\<^verbatim>\<open>execute\<close>: \<open>Inr\<close> is the return value true. \<open>Inl\<close> is false: an exception
  was caught, or no program is loaded (reported here as an access error with line -1).\<close>

definition execute :: "nat \<Rightarrow> VM \<Rightarrow> VM result option" where
  "execute fuel s =
     (if program s = [] then Some (throw (AccessError ''No program loaded'' (- 1)) s)
      else execute_loop fuel (s\<lparr>pc := 0, running := True\<rparr>))"

text \<open>\<^verbatim>\<open>loadProgram\<close> on the text of the IR file, then \<^verbatim>\<open>execute\<close>, on a fresh machine:
  what \<^verbatim>\<open>main\<close> in steve.cpp does.\<close>

definition run_ir ::
  "(string \<Rightarrow> string \<Rightarrow> bool) \<Rightarrow> (nat \<Rightarrow> 64 word) \<Rightarrow> nat \<Rightarrow> string \<Rightarrow> VM result option" where
  "run_ir fs addr_of fuel irCode =
     execute fuel ((VM_init fs addr_of)\<lparr>program := parseIR irCode\<rparr>)"

section \<open>Correctness of the collector of the virtual machine\<close>

text \<open>The cells reachable from the root set: a root that is live, or a live cell on the
  edge list of a reachable cell.\<close>

inductive_set reachable_cells :: "'a list \<Rightarrow> 'a list \<Rightarrow> ('a \<times> 'a list) list \<Rightarrow> 'a set"
  for hp :: "'a list" and rts :: "'a list" and refs :: "('a \<times> 'a list) list" where
  from_root: "r \<in> set rts \<Longrightarrow> r \<in> set hp \<Longrightarrow> r \<in> reachable_cells hp rts refs"
| from_edge: "a \<in> reachable_cells hp rts refs \<Longrightarrow> b \<in> set (edges_of refs a) \<Longrightarrow> b \<in> set hp
              \<Longrightarrow> b \<in> reachable_cells hp rts refs"

lemma visit_new: "r \<in> set hp \<Longrightarrow> r \<notin> set reach \<Longrightarrow> visit hp r (reach, wl) = (r # reach, r # wl)"
  by (simp add: visit_def)

lemma visit_old: "\<not> (r \<in> set hp \<and> r \<notin> set reach) \<Longrightarrow> visit hp r (reach, wl) = (reach, wl)"
  by (auto simp: visit_def)

lemma fold_visit_sets:
  "fold (visit hp) rs (reach, wl) = (reach', wl') \<Longrightarrow>
     set reach' = set reach \<union> (set rs \<inter> set hp) \<and>
     set wl' = set wl \<union> ((set rs \<inter> set hp) - set reach)"
proof (induction rs arbitrary: reach wl)
  case Nil
  then show ?case by simp
next
  case (Cons r rs)
  from Cons.prems have step: "fold (visit hp) rs (visit hp r (reach, wl)) = (reach', wl')"
    by simp
  show ?case
  proof (cases "r \<in> set hp \<and> r \<notin> set reach")
    case True
    then have "visit hp r (reach, wl) = (r # reach, r # wl)" by (simp add: visit_new)
    with step have "fold (visit hp) rs (r # reach, r # wl) = (reach', wl')" by simp
    from Cons.IH[OF this] True show ?thesis by auto
  next
    case False
    then have "visit hp r (reach, wl) = (reach, wl)" by (rule visit_old)
    with step have "fold (visit hp) rs (reach, wl) = (reach', wl')" by simp
    from Cons.IH[OF this] False show ?thesis by auto
  qed
qed

definition mark_inv :: "'a list \<Rightarrow> 'a list \<Rightarrow> ('a \<times> 'a list) list \<Rightarrow> 'a list \<times> 'a list \<Rightarrow> bool" where
  "mark_inv hp rts refs st =
     (set (fst st) \<subseteq> reachable_cells hp rts refs \<and>
      set (snd st) \<subseteq> set (fst st) \<and>
      (\<forall>a \<in> set (fst st) - set (snd st). set (edges_of refs a) \<inter> set hp \<subseteq> set (fst st)))"

lemma mark_inv_step:
  assumes "mark_inv hp rts refs (reach, current # wl)"
  shows "mark_inv hp rts refs (fold (visit hp) (edges_of refs current) (reach, wl))"
proof -
  obtain reach' wl' where f: "fold (visit hp) (edges_of refs current) (reach, wl) = (reach', wl')"
    by (cases "fold (visit hp) (edges_of refs current) (reach, wl)")
  from fold_visit_sets[OF f]
  have r': "set reach' = set reach \<union> (set (edges_of refs current) \<inter> set hp)"
    and w': "set wl' = set wl \<union> ((set (edges_of refs current) \<inter> set hp) - set reach)"
    by simp_all
  from assms have i1: "set reach \<subseteq> reachable_cells hp rts refs"
    and i2: "set (current # wl) \<subseteq> set reach"
    and i3: "\<forall>a \<in> set reach - set (current # wl). set (edges_of refs a) \<inter> set hp \<subseteq> set reach"
    by (simp_all add: mark_inv_def)
  from i2 i1 have cur: "current \<in> reachable_cells hp rts refs" by auto
  have "set reach' \<subseteq> reachable_cells hp rts refs"
    using r' i1 cur by (auto intro: reachable_cells.from_edge)
  moreover have "set wl' \<subseteq> set reach'" using r' w' i2 by auto
  moreover have "\<forall>a \<in> set reach' - set wl'. set (edges_of refs a) \<inter> set hp \<subseteq> set reach'"
  proof
    fix a assume a: "a \<in> set reach' - set wl'"
    show "set (edges_of refs a) \<inter> set hp \<subseteq> set reach'"
    proof (cases "a = current")
      case True
      then show ?thesis using r' by auto
    next
      case False
      from a r' w' have "a \<in> set reach" by auto
      moreover from a w' have "a \<notin> set wl" by auto
      ultimately have "a \<in> set reach - set (current # wl)" using False by auto
      with i3 have "set (edges_of refs a) \<inter> set hp \<subseteq> set reach" by blast
      with r' show ?thesis by auto
    qed
  qed
  ultimately show ?thesis using f by (simp add: mark_inv_def)
qed

lemma fold_visit_mono: "set (fst st) \<subseteq> set (fst (fold (visit hp) rs st))"
proof -
  obtain reach wl where st: "st = (reach, wl)" by (cases st)
  obtain reach' wl' where f: "fold (visit hp) rs (reach, wl) = (reach', wl')"
    by (cases "fold (visit hp) rs (reach, wl)")
  from fold_visit_sets[OF f] st f show ?thesis by auto
qed

lemma mark_loop_result:
  "mark_inv hp rts refs st \<Longrightarrow>
     set (fst st) \<subseteq> set (mark_loop hp refs st) \<and>
     set (mark_loop hp refs st) \<subseteq> reachable_cells hp rts refs \<and>
     (\<forall>a \<in> set (mark_loop hp refs st). set (edges_of refs a) \<inter> set hp \<subseteq> set (mark_loop hp refs st))"
proof (induction hp refs st rule: mark_loop.induct)
  case (1 hp refs reach)
  then show ?case by (simp add: mark_inv_def)
next
  case (2 hp refs reach current wl)
  let ?st = "fold (visit hp) (edges_of refs current) (reach, wl)"
  have inv: "mark_inv hp rts refs ?st" by (rule mark_inv_step[OF "2.prems"])
  from "2.IH"[OF inv] have
    a: "set (fst ?st) \<subseteq> set (mark_loop hp refs ?st)" and
    b: "set (mark_loop hp refs ?st) \<subseteq> reachable_cells hp rts refs" and
    c: "\<forall>a \<in> set (mark_loop hp refs ?st). set (edges_of refs a) \<inter> set hp \<subseteq> set (mark_loop hp refs ?st)"
    by blast+
  have "set reach \<subseteq> set (fst ?st)" using fold_visit_mono[of "(reach, wl)" hp] by simp
  with a b c show ?case by simp
qed

definition marked_cells :: "'a list \<Rightarrow> 'a list \<Rightarrow> ('a \<times> 'a list) list \<Rightarrow> 'a list" where
  "marked_cells hp rts refs = mark_loop hp refs (fold (visit hp) rts ([], []))"

lemma marked_cells_correct: "set (marked_cells hp rts refs) = reachable_cells hp rts refs"
proof -
  let ?seed = "fold (visit hp) rts ([], [])"
  obtain reach0 wl0 where f: "fold (visit hp) rts ([], []) = (reach0, wl0)"
    by (cases "fold (visit hp) rts ([], [])")
  from fold_visit_sets[OF f] have r0: "set reach0 = set rts \<inter> set hp" and w0: "set wl0 = set rts \<inter> set hp"
    by simp_all
  have inv: "mark_inv hp rts refs ?seed"
    using r0 w0 f by (auto simp: mark_inv_def intro: reachable_cells.from_root)
  from mark_loop_result[OF inv] have
    a: "set (fst ?seed) \<subseteq> set (marked_cells hp rts refs)" and
    b: "set (marked_cells hp rts refs) \<subseteq> reachable_cells hp rts refs" and
    c: "\<forall>a \<in> set (marked_cells hp rts refs). set (edges_of refs a) \<inter> set hp \<subseteq> set (marked_cells hp rts refs)"
    unfolding marked_cells_def by blast+
  have "x \<in> set (marked_cells hp rts refs)" if "x \<in> reachable_cells hp rts refs" for x
    using that
  proof induction
    case (from_root r)
    then show ?case using a r0 f by auto
  next
    case (from_edge a b)
    then show ?case using c by blast
  qed
  with b show ?thesis by blast
qed

lemma cleanup_purge: "x \<notin> set h \<Longrightarrow> cleanup h (purge x refs) = cleanup h refs"
proof (induction refs)
  case Nil
  show ?case by (simp add: cleanup_def purge_def)
next
  case (Cons e refs)
  obtain k l where e: "e = (k, l)" by (cases e)
  have keep: "filter (\<lambda>y. y \<in> set h) (removeAll x l) = filter (\<lambda>y. y \<in> set h) l"
    using Cons.prems by (induction l) auto
  from Cons.IH[OF Cons.prems] have ih: "cleanup h (purge x refs) = cleanup h refs" .
  have unf: "\<And>rs. cleanup h ((k, l) # rs) =
      (if k \<in> set h then (k, filter (\<lambda>y. y \<in> set h) l) # cleanup h rs else cleanup h rs)"
    by (simp add: cleanup_def)
  have unf2: "\<And>l'. cleanup h ((k, l') # purge x refs) =
      (if k \<in> set h then (k, filter (\<lambda>y. y \<in> set h) l') # cleanup h (purge x refs)
       else cleanup h (purge x refs))"
    by (simp add: cleanup_def)
  have p: "purge x ((k, l) # refs) = (if k \<noteq> x then (k, removeAll x l) # purge x refs else purge x refs)"
    by (simp add: purge_def)
  show ?case
  proof (cases "k = x")
    case True
    then have "k \<notin> set h" using Cons.prems by simp
    with True e p ih unf show ?thesis by simp
  next
    case False
    with e p ih unf unf2 keep show ?thesis by simp
  qed
qed

lemma cleanup_fold_purge:
  "set ds \<inter> set h = {} \<Longrightarrow> cleanup h (fold purge ds refs) = cleanup h refs"
proof (induction ds arbitrary: refs)
  case Nil
  show ?case by simp
next
  case (Cons d ds)
  then have "cleanup h (fold purge ds (purge d refs)) = cleanup h (purge d refs)" by simp
  also have "\<dots> = cleanup h refs" using Cons.prems by (intro cleanup_purge) simp
  finally show ?case by simp
qed

lemma sweep_result:
  "sweep xs reachable refs =
     (filter (\<lambda>x. x \<in> set reachable) xs,
      fold purge (filter (\<lambda>x. x \<notin> set reachable) xs) refs,
      length (filter (\<lambda>x. x \<notin> set reachable) xs))"
  by (induction xs arbitrary: refs) simp_all


lemma reachable_cells_live: "x \<in> reachable_cells hp rts refs \<Longrightarrow> x \<in> set hp"
  by (induction rule: reachable_cells.induct) simp_all

lemma collect_nonempty:
  "heap g \<noteq> [] \<Longrightarrow>
   collect g =
     (length (filter (\<lambda>x. x \<notin> reachable_cells (heap g) (roots g) (references g)) (heap g)),
      g\<lparr>heap := filter (\<lambda>x. x \<in> reachable_cells (heap g) (roots g) (references g)) (heap g),
        references := cleanup
          (filter (\<lambda>x. x \<in> reachable_cells (heap g) (roots g) (references g)) (heap g))
          (references g)\<rparr>)"
proof -
  assume ne: "heap g \<noteq> []"
  let ?R = "reachable_cells (heap g) (roots g) (references g)"
  let ?m = "marked_cells (heap g) (roots g) (references g)"
  let ?kept = "filter (\<lambda>x. x \<in> ?R) (heap g)"
  let ?dead = "filter (\<lambda>x. x \<notin> ?R) (heap g)"
  have m: "set ?m = ?R" by (rule marked_cells_correct)
  have sw: "sweep (heap g) ?m (references g) = (?kept, fold purge ?dead (references g), length ?dead)"
    by (simp add: sweep_result m)
  have "set ?dead \<inter> set ?kept = {}" by auto
  then have "cleanup ?kept (fold purge ?dead (references g)) = cleanup ?kept (references g)"
    by (rule cleanup_fold_purge)
  with ne sw show ?thesis
    by (simp add: collect_def marked_cells_def [symmetric])
qed

lemma collect_empty: "heap g = [] \<Longrightarrow> collect g = (0, g)"
  by (simp add: collect_def)

lemma cleanup_keys: "(k, l) \<in> set (cleanup h refs) \<Longrightarrow> k \<in> set h \<and> set l \<subseteq> set h"
  by (auto simp: cleanup_def)

theorem VM_collect_live_set:
  "set (heap (snd (collect g))) = reachable_cells (heap g) (roots g) (references g)"
proof (cases "heap g = []")
  case True
  have "reachable_cells (heap g) (roots g) (references g) = {}"
    using reachable_cells_live[of _ "heap g"] True by fastforce
  with True show ?thesis by (simp add: collect_empty)
next
  case False
  then show ?thesis using reachable_cells_live[of _ "heap g"] by (auto simp: collect_nonempty)
qed

theorem VM_collect_count:
  "fst (collect g) = length (heap g) - length (heap (snd (collect g)))"
proof (cases "heap g = []")
  case True
  then show ?thesis by (simp add: collect_empty)
next
  case False
  let ?R = "reachable_cells (heap g) (roots g) (references g)"
  have "length (heap g) = length (filter (\<lambda>x. x \<in> ?R) (heap g)) + length (filter (\<lambda>x. x \<notin> ?R) (heap g))"
    by (rule sum_length_filter_compl [symmetric])
  with False show ?thesis by (simp add: collect_nonempty)
qed

theorem VM_collect_purged:
  assumes "x \<in> set (heap g)" and "x \<notin> reachable_cells (heap g) (roots g) (references g)"
    and "(k, l) \<in> set (references (snd (collect g)))"
  shows "k \<noteq> x \<and> x \<notin> set l"
proof -
  from assms(1) have ne: "heap g \<noteq> []" by auto
  let ?kept = "filter (\<lambda>x. x \<in> reachable_cells (heap g) (roots g) (references g)) (heap g)"
  from assms(3) ne have "(k, l) \<in> set (cleanup ?kept (references g))"
    by (simp add: collect_nonempty)
  then have "k \<in> set ?kept \<and> set l \<subseteq> set ?kept" by (rule cleanup_keys)
  moreover have "x \<notin> set ?kept" using assms(2) by simp
  ultimately show ?thesis by auto
qed

section \<open>Concrete environments and instructions for the examples\<close>

definition no_files :: "string \<Rightarrow> string \<Rightarrow> bool" where
  "no_files fname md = False"

definition all_files :: "string \<Rightarrow> string \<Rightarrow> bool" where
  "all_files fname md = True"

definition flat_addr :: "nat \<Rightarrow> 64 word" where
  "flat_addr n = 0"

definition fresh_state :: VM where
  "fresh_state = VM_init no_files flat_addr"

definition instr_of :: "InstructionType \<Rightarrow> string list \<Rightarrow> Instruction" where
  "instr_of t ops = Instruction_default\<lparr>itype := t, operands := ops\<rparr>"

section \<open>Division and modulo by zero\<close>

definition zero_value :: "Value \<Rightarrow> bool" where
  "zero_value v = (v = IntV 0 \<or> v = LongV 0 \<or> v = DoubleV 0)"

lemma int_binop_zero:
  "op = ''/'' \<or> op = ''%'' \<Longrightarrow> \<exists>msg. int_binop a 0 op lno = Inl (RuntimeError msg lno)"
  by (auto simp: int_binop_def)

lemma double_binop_zero: "double_binop a 0 ''/'' lno = Inl (RuntimeError ''Division by zero error'' lno)"
  by (simp add: double_binop_def)

lemma performBinaryOperation_zero:
  assumes "zero_value right"
    and "(is_int_value left \<and> is_int_value right \<and> (op = ''/'' \<or> op = ''%''))
         \<or> ((is_double left \<or> is_double right) \<and> op = ''/'')"
  shows "\<exists>msg. performBinaryOperation addr_of left right op lno = Inl (RuntimeError msg lno)"
proof -
  from assms(1) have dz: "getDoubleValue right = 0"
    by (auto simp: zero_value_def getDoubleValue_def)
  from assms(2) show ?thesis
  proof
    assume a: "is_int_value left \<and> is_int_value right \<and> (op = ''/'' \<or> op = ''%'')"
    then have nd: "\<not> is_double left" "\<not> is_double right"
      by (auto simp: is_int_value_def is_double_def split: Value.splits)
    from a assms(1) have "getInt64Value addr_of right = 0"
      by (auto simp: zero_value_def getInt64Value_def is_int_value_def)
    with a nd int_binop_zero[of op] show ?thesis
      by (simp add: performBinaryOperation_def)
  next
    assume "(is_double left \<or> is_double right) \<and> op = ''/''"
    with dz double_binop_zero show ?thesis
      by (simp add: performBinaryOperation_def)
  qed
qed

text \<open>
  Claim C3. When BINARY_OP finds a right operand equal to zero, with operator \<open>/\<close> or
  \<open>%\<close> on two integer operands (32-bit or 64-bit), or with operator \<open>/\<close> when an
  operand is a double, \<^verbatim>\<open>performBinaryOperation\<close> raises a runtime error and yields no
  value, and the instruction ends in that error with both operands popped and nothing
  pushed.
\<close>

theorem division_by_zero_raises:
  assumes "itype instr = BINARY_OP" and "operands instr = op # ops"
    and "stack s = right # left # rest"
    and "zero_value right"
    and "(is_int_value left \<and> is_int_value right \<and> (op = ''/'' \<or> op = ''%''))
         \<or> ((is_double left \<or> is_double right) \<and> op = ''/'')"
  shows "\<exists>msg. performBinaryOperation (block_addr s) left right op (line instr)
                  = Inl (RuntimeError msg (line instr))
               \<and> decodeAndExecute instr s = Inl (RuntimeError msg (line instr), s\<lparr>stack := rest\<rparr>)"
proof -
  from performBinaryOperation_zero[OF assms(4,5)]
  obtain msg where m: "performBinaryOperation (block_addr s) left right op (line instr)
                        = Inl (RuntimeError msg (line instr))" by blast
  with assms(1-3) have "decodeAndExecute instr s = Inl (RuntimeError msg (line instr), s\<lparr>stack := rest\<rparr>)"
    by (simp add: decodeAndExecute_def pop_back_def throw_def)
  with m show ?thesis by blast
qed

text \<open>The program of scenario 5, \<^verbatim>\<open>LOAD 10; LOAD 0; BINARY_OP /\<close>, at its last
  instruction.\<close>

definition div_zero_state :: VM where
  "div_zero_state = (VM_init no_files flat_addr)\<lparr>stack := [IntV 0, IntV 10]\<rparr>"

theorem division_by_zero_raises_witness:
  "decodeAndExecute (instr_of BINARY_OP [''/'']) div_zero_state
     = Inl (RuntimeError ''Division by zero error'' (- 1), div_zero_state\<lparr>stack := []\<rparr>)"
proof -
  have "\<exists>msg. performBinaryOperation (block_addr div_zero_state) (IntV 10) (IntV 0) ''/''
                 (line (instr_of BINARY_OP [''/''])) = Inl (RuntimeError msg (line (instr_of BINARY_OP [''/''])))
              \<and> decodeAndExecute (instr_of BINARY_OP [''/'']) div_zero_state
                 = Inl (RuntimeError msg (line (instr_of BINARY_OP [''/''])), div_zero_state\<lparr>stack := []\<rparr>)"
    by (rule division_by_zero_raises[where op = "''/''" and ops = "[]"])
       (simp_all add: instr_of_def Instruction_default_def div_zero_state_def VM_init_def
          zero_value_def is_int_value_def)
  moreover have "performBinaryOperation (block_addr div_zero_state) (IntV 10) (IntV 0) ''/''
                 (line (instr_of BINARY_OP [''/''])) = Inl (RuntimeError ''Division by zero error'' (- 1))"
    by (simp add: performBinaryOperation_def is_double_def is_int_value_def getInt64Value_def
          int_binop_def instr_of_def Instruction_default_def)
  ultimately show ?thesis by (auto simp: instr_of_def Instruction_default_def)
qed

section \<open>Integer arithmetic\<close>

text \<open>The conversion of an integer operand to \<^verbatim>\<open>int64_t\<close>: a 32-bit value is sign-extended.\<close>

definition to_int64 :: "Value \<Rightarrow> 64 word" where
  "to_int64 v = (case v of IntV i \<Rightarrow> scast i | LongV l \<Rightarrow> l | _ \<Rightarrow> 0)"

lemma performBinaryOperation_int:
  "is_int_value left \<Longrightarrow> is_int_value right \<Longrightarrow>
     performBinaryOperation addr_of left right op lno = int_binop (to_int64 left) (to_int64 right) op lno"
  by (cases left; cases right)
     (simp_all add: performBinaryOperation_def is_int_value_def is_double_def
        getInt64Value_def to_int64_def)

text \<open>Outside the overflow the truncated quotient and the remainder fit in 64 bits.\<close>

lemma sint_word_of_int_64:
  "- (2 ^ 63) \<le> k \<Longrightarrow> k < 2 ^ 63 \<Longrightarrow> sint (word_of_int k :: 64 word) = k"
  by (simp add: sint_sbintrunc' signed_take_bit_int_eq_self)

lemma sint64_bounds: "- (2 ^ 63) \<le> sint (a :: 64 word)" "sint (a :: 64 word) < 2 ^ 63"
  using sint_ge[of a] sint_lt[of a] by simp_all

lemma abs_div_le: "\<bar>k :: int\<bar> div \<bar>l\<bar> \<le> \<bar>k\<bar>"
proof (cases "l = 0")
  case True
  then show ?thesis by simp
next
  case False
  then have "1 \<le> \<bar>l\<bar>" by simp
  then have "\<bar>k\<bar> div \<bar>l\<bar> \<le> \<bar>k\<bar> div 1"
    by (intro zdiv_mono2) simp_all
  then show ?thesis by simp
qed

lemma abs_div_nonneg: "0 \<le> \<bar>k :: int\<bar> div \<bar>l\<bar>"
  by (simp add: pos_imp_zdiv_nonneg_iff div_int_pos_iff)

lemma sdiv_abs_le: "\<bar>(k :: int) sdiv l\<bar> \<le> \<bar>k\<bar>"
proof -
  have "\<bar>k sdiv l\<bar> = \<bar>sgn k\<bar> * \<bar>sgn l\<bar> * (\<bar>k\<bar> div \<bar>l\<bar>)"
    using abs_div_nonneg[of k l] by (simp add: signed_divide_int_def abs_mult)
  also have "\<dots> \<le> \<bar>k\<bar> div \<bar>l\<bar>"
    using abs_div_nonneg[of k l] by (cases "k = 0"; cases "l = 0") (simp_all add: abs_sgn_eq)
  also have "\<dots> \<le> \<bar>k\<bar>" by (rule abs_div_le)
  finally show ?thesis .
qed

lemma sdiv_fits:
  assumes "\<not> div_overflows (a :: 64 word) b"
  shows "sint (word_of_int (sint a sdiv sint b) :: 64 word) = sint a sdiv sint b"
proof -
  let ?q = "sint a sdiv sint b"
  have le: "\<bar>?q\<bar> \<le> \<bar>sint a\<bar>" by (rule sdiv_abs_le)
  have lo: "- (2 ^ 63) \<le> ?q" using le sint64_bounds[of a] by linarith
  have hi: "?q < 2 ^ 63"
  proof (cases "sint a = - (2 ^ 63)")
    case False
    then have "\<bar>sint a\<bar> < 2 ^ 63" using sint64_bounds[of a] by linarith
    with le show ?thesis by linarith
  next
    case True
    with assms have b: "sint b \<noteq> - 1" by (simp add: div_overflows_def)
    show ?thesis
    proof (cases "sint b < 0")
      case False
      then have "0 \<le> sgn (sint b)" by (simp add: sgn_if)
      then have "0 \<le> sgn (sint b) * (\<bar>sint a\<bar> div \<bar>sint b\<bar>)"
        using abs_div_nonneg[of "sint a" "sint b"] by (rule mult_nonneg_nonneg)
      moreover have "?q = - (sgn (sint b) * (\<bar>sint a\<bar> div \<bar>sint b\<bar>))"
        using True by (simp add: signed_divide_int_def)
      ultimately have "?q \<le> 0" by linarith
      then show ?thesis by simp
    next
      case neg: True
      with b have "2 \<le> \<bar>sint b\<bar>" by linarith
      then have "\<bar>sint a\<bar> div \<bar>sint b\<bar> \<le> \<bar>sint a\<bar> div 2"
        by (intro zdiv_mono2) simp_all
      also have "\<dots> < 2 ^ 63" using True by simp
      finally have "\<bar>sint a\<bar> div \<bar>sint b\<bar> < 2 ^ 63" .
      then show ?thesis using True neg by (simp add: signed_divide_int_def sgn_if)
    qed
  qed
  from lo hi show ?thesis by (rule sint_word_of_int_64)
qed

lemma smod_fits:
  assumes "(b :: 64 word) \<noteq> 0"
  shows "sint (word_of_int (sint a smod sint b) :: 64 word) = sint a smod sint b"
proof -
  let ?r = "sint a smod sint b"
  from assms have nz: "sint b \<noteq> 0" by (simp add: signed_eq_0_iff)
  have "0 \<le> \<bar>sint a\<bar> mod \<bar>sint b\<bar>" "\<bar>sint a\<bar> mod \<bar>sint b\<bar> < \<bar>sint b\<bar>"
    using nz by simp_all
  then have "\<bar>?r\<bar> < \<bar>sint b\<bar>"
    by (cases "sint a = 0") (simp_all add: signed_modulo_int_def abs_mult abs_sgn_eq)
  moreover have "\<bar>sint b\<bar> \<le> 2 ^ 63" using sint64_bounds[of b] by linarith
  ultimately have "- (2 ^ 63) \<le> ?r" "?r < 2 ^ 63" by linarith+
  then show ?thesis by (rule sint_word_of_int_64)
qed


lemma int_binop_div:
  "b \<noteq> 0 \<Longrightarrow> \<not> div_overflows a b \<Longrightarrow>
     int_binop a b ''/'' lno = Inr (LongV (word_of_int (sint a sdiv sint b)))"
  by (simp add: int_binop_def sdiv64_def)

lemma int_binop_mod:
  "b \<noteq> 0 \<Longrightarrow> \<not> div_overflows a b \<Longrightarrow>
     int_binop a b ''%'' lno = Inr (LongV (word_of_int (sint a smod sint b)))"
  by (simp add: int_binop_def smod64_def)

text \<open>
  Claim C6, as amended. Every arithmetic BINARY_OP (\<open>+ - * / %\<close>) on two integer
  operands sign-extends a 32-bit operand to 64 bits, computes in two's-complement 64-bit
  arithmetic and yields a 64-bit long value, also when both operands are 32-bit
  integers; \<open>/\<close> and \<open>%\<close> yield the quotient truncated towards zero and its
  remainder, exactly, when the right operand is not zero and the operands are not
  \<^verbatim>\<open>INT64_MIN\<close> and -1.
\<close>

theorem integer_arithmetic_is_64_bit:
  assumes "is_int_value left" and "is_int_value right"
  shows "performBinaryOperation addr_of left right ''+'' lno
           = Inr (LongV (to_int64 left + to_int64 right))
       \<and> performBinaryOperation addr_of left right ''-'' lno
           = Inr (LongV (to_int64 left - to_int64 right))
       \<and> performBinaryOperation addr_of left right ''*'' lno
           = Inr (LongV (to_int64 left * to_int64 right))
       \<and> (to_int64 right \<noteq> 0 \<longrightarrow> \<not> div_overflows (to_int64 left) (to_int64 right) \<longrightarrow>
            performBinaryOperation addr_of left right ''/'' lno
              = Inr (LongV (word_of_int (sint (to_int64 left) sdiv sint (to_int64 right))))
            \<and> sint (word_of_int (sint (to_int64 left) sdiv sint (to_int64 right)) :: 64 word)
              = sint (to_int64 left) sdiv sint (to_int64 right))
       \<and> (to_int64 right \<noteq> 0 \<longrightarrow> \<not> div_overflows (to_int64 left) (to_int64 right) \<longrightarrow>
            performBinaryOperation addr_of left right ''%'' lno
              = Inr (LongV (word_of_int (sint (to_int64 left) smod sint (to_int64 right))))
            \<and> sint (word_of_int (sint (to_int64 left) smod sint (to_int64 right)) :: 64 word)
              = sint (to_int64 left) smod sint (to_int64 right))"
proof -
  have ops: "performBinaryOperation addr_of left right op lno
               = int_binop (to_int64 left) (to_int64 right) op lno" for op
    using assms by (rule performBinaryOperation_int)
  have "int_binop (to_int64 left) (to_int64 right) ''+'' lno
          = Inr (LongV (to_int64 left + to_int64 right))"
    and "int_binop (to_int64 left) (to_int64 right) ''-'' lno
          = Inr (LongV (to_int64 left - to_int64 right))"
    and "int_binop (to_int64 left) (to_int64 right) ''*'' lno
          = Inr (LongV (to_int64 left * to_int64 right))"
    by (simp_all add: int_binop_def)
  then show ?thesis
    by (simp add: ops int_binop_div int_binop_mod sdiv_fits smod_fits)
qed

text \<open>At \<^verbatim>\<open>INT64_MIN\<close> and -1 the model has no value for \<open>/\<close> and \<open>%\<close>.\<close>

lemma division_overflow_has_no_value:
  "performBinaryOperation addr_of (LongV (- 9223372036854775808)) (LongV (- 1)) ''/'' lno
     = Inl DivisionOverflow
   \<and> performBinaryOperation addr_of (LongV (- 9223372036854775808)) (IntV (- 1)) ''%'' lno
     = Inl DivisionOverflow"
  by (simp add: performBinaryOperation_def is_double_def is_int_value_def getInt64Value_def
        int_binop_def sdiv64_def smod64_def div_overflows_def)


lemma scast_examples:
  "to_int64 (IntV 2147483647) = 2147483647" "to_int64 (IntV 1) = 1" "to_int64 (IntV (- 7)) = - 7"
  "to_int64 (LongV 2) = 2"
  by (simp_all add: to_int64_def)

lemma sdiv_example:
  "\<not> div_overflows (- 7) 2"
  "(word_of_int (sint (- 7 :: 64 word) sdiv sint (2 :: 64 word)) :: 64 word) = - 3"
  "(word_of_int (sint (- 7 :: 64 word) smod sint (2 :: 64 word)) :: 64 word) = - 1"
  by (simp_all add: div_overflows_def signed_divide_int_def signed_modulo_int_def)

theorem integer_arithmetic_is_64_bit_witness:
  "performBinaryOperation flat_addr (IntV 2147483647) (IntV 1) ''+'' 0 = Inr (LongV 2147483648)
   \<and> performBinaryOperation flat_addr (IntV (- 7)) (LongV 2) ''/'' 0 = Inr (LongV (- 3))
   \<and> performBinaryOperation flat_addr (IntV (- 7)) (LongV 2) ''%'' 0 = Inr (LongV (- 1))"
  using integer_arithmetic_is_64_bit[of "IntV 2147483647" "IntV 1" flat_addr 0]
        integer_arithmetic_is_64_bit[of "IntV (- 7)" "LongV 2" flat_addr 0]
  by (simp add: is_int_value_def scast_examples sdiv_example)

text \<open>The claim as stated fails on two 32-bit operands: \<open>2147483647 + 1\<close> is the long
  \<open>2147483648\<close>, not a 32-bit value and not the 32-bit sum.\<close>

theorem int_plus_int_is_long_counterexample:
  "performBinaryOperation flat_addr (IntV 2147483647) (IntV 1) ''+'' 0 = Inr (LongV 2147483648)
   \<and> performBinaryOperation flat_addr (IntV 2147483647) (IntV 1) ''+'' 0
       \<noteq> Inr (IntV (2147483647 + 1))"
  by (simp add: performBinaryOperation_int is_int_value_def int_binop_def scast_examples)

section \<open>Truthiness\<close>

definition false_text :: "Value \<Rightarrow> bool" where
  "false_text v =
     (case v of StringV s \<Rightarrow> map tolower s = ''false'' \<or> map tolower s = ''0'' | _ \<Rightarrow> False)"

definition nonempty_container :: "Value \<Rightarrow> bool" where
  "nonempty_container v =
     (case v of ListV xs \<Rightarrow> xs \<noteq> [] | DictV kvs \<Rightarrow> kvs \<noteq> [] | _ \<Rightarrow> False)"

text \<open>
  Claim C8, as amended. For every value \<open>x\<close> other than a non-empty list or
  dictionary, \<open>bool(x)\<close> is the truthiness of branch decisions (\<open>getBoolValue\<close>),
  except on a string whose lower-cased text is \<open>false\<close> or \<open>0\<close>: there \<open>bool(x)\<close>
  is false.
\<close>

theorem bool_builtin_truthiness:
  "\<not> nonempty_container x \<Longrightarrow>
     builtin_bool [x] = BoolV (getBoolValue x \<and> \<not> false_text x)"
  by (cases x)
     (auto simp: builtin_bool_def getBoolValue_def false_text_def nonempty_container_def Let_def)

lemma false_text_FALSE: "false_text (StringV ''FALSE'') = True"
  by code_simp

theorem bool_builtin_truthiness_witness:
  "builtin_bool [StringV ''abc''] = BoolV True \<and> getBoolValue (StringV ''abc'')
   \<and> builtin_bool [StringV ''FALSE''] = BoolV False \<and> getBoolValue (StringV ''FALSE'')
   \<and> builtin_bool [IntV 0] = BoolV False"
proof -
  have a: "builtin_bool [StringV ''abc''] = BoolV True"
    using bool_builtin_truthiness[of "StringV ''abc''"]
    by (simp add: nonempty_container_def false_text_def getBoolValue_def tolower_def)
  have b: "builtin_bool [StringV ''FALSE''] = BoolV False"
    using bool_builtin_truthiness[of "StringV ''FALSE''"]
    by (simp only: false_text_FALSE) (simp add: nonempty_container_def)
  have c: "builtin_bool [IntV 0] = BoolV False"
    using bool_builtin_truthiness[of "IntV 0"]
    by (simp add: nonempty_container_def false_text_def getBoolValue_def)
  from a b c show ?thesis by (simp add: getBoolValue_def)
qed

text \<open>The claim as stated fails on the strings \<open>false\<close> and \<open>0\<close>: the builtin
  answers false, a branch takes them as true.\<close>

theorem bool_builtin_false_string_counterexample:
  "builtin_bool [StringV ''false''] = BoolV False \<and> getBoolValue (StringV ''false'') = True
   \<and> builtin_bool [StringV ''0''] = BoolV False \<and> getBoolValue (StringV ''0'') = True"
  by (simp add: builtin_bool_def getBoolValue_def tolower_def)

text \<open>On a non-empty list or dictionary the builtin has no case and answers false.\<close>

lemma bool_builtin_nonempty_list:
  "builtin_bool [ListV [IntV 1]] = BoolV False \<and> getBoolValue (ListV [IntV 1]) = True"
  by (simp add: builtin_bool_def getBoolValue_def)

section \<open>GC_RUN\<close>

lemma runGarbageCollection_stack: "stack (runGarbageCollection s) = stack s"
  by (simp add: runGarbageCollection_def)

text \<open>
  Claim C10. For every machine state and heap contents, GC_RUN ends without an error,
  runs both collectors and pushes exactly one value, the 32-bit integer 0, whatever
  the collectors reclaimed: the stack afterwards is the old stack with 0 on top.
\<close>

theorem GC_RUN_pushes_zero:
  "itype instr = GC_RUN \<Longrightarrow>
     decodeAndExecute instr s = Inr ((runGarbageCollection s)\<lparr>stack := IntV 0 # stack s\<rparr>)"
  by (simp add: decodeAndExecute_def push_back_def runGarbageCollection_stack)

text \<open>A machine whose collector holds two cells and no root: the collection reclaims
  both, and GC_RUN still pushes 0.\<close>

definition two_dead_cells :: VM where
  "two_dead_cells =
     (VM_init no_files flat_addr)
       \<lparr>gc := \<lparr>heap = [Block 0, Block 1], roots = [], references = []\<rparr>,
        stack := [StringV ''below'']\<rparr>"

theorem GC_RUN_pushes_zero_witness:
  "fst (collect (gc two_dead_cells)) = 2
   \<and> stack (projr (decodeAndExecute (instr_of GC_RUN []) two_dead_cells)) = [IntV 0, StringV ''below'']"
  using GC_RUN_pushes_zero[of "instr_of GC_RUN []" two_dead_cells]
  by (simp add: instr_of_def two_dead_cells_def VM_init_def collect_def visit_def)

section \<open>DEFVAR and STORE\<close>

text \<open>
  Claim C5, as amended. For every program and machine state, DEFVAR \<open>name\<close> sets
  \<open>name\<close> (cut at a colon, if it has one) to the integer 0 in the global variable
  map; STORE \<open>name\<close> on a non-empty operand stack pops the top of the stack and stores
  it under \<open>name\<close> in the global variable map, and STORE on an empty operand stack
  raises an access error and changes nothing; neither instruction reads or changes the
  scope stack.
\<close>

theorem DEFVAR_STORE_write_global_map:
  "(itype instr = DEFVAR \<longrightarrow> operands instr = name # ops \<longrightarrow>
      decodeAndExecute instr s
        = Inr (s\<lparr>variables := (variables s)(takeWhile (\<lambda>c. c \<noteq> CHR '':'') name \<mapsto> IntV 0)\<rparr>))
   \<and> (itype instr = STORE \<longrightarrow> operands instr = name # ops \<longrightarrow> stack s = v # rest \<longrightarrow>
      decodeAndExecute instr s
        = Inr (s\<lparr>stack := rest, variables := (variables s)(name \<mapsto> v)\<rparr>))
   \<and> (itype instr = STORE \<longrightarrow> stack s = [] \<longrightarrow>
      decodeAndExecute instr s
        = Inl (AccessError ''Stack underflow during STORE operation'' (line instr), s))"
  by (simp add: decodeAndExecute_def pop_back_def throw_def)

definition shadowing_state :: VM where
  "shadowing_state = fresh_state\<lparr>scopes := [[''x'' \<mapsto> IntV 1], Map.empty], stack := [IntV 7]\<rparr>"

theorem DEFVAR_STORE_write_global_map_witness:
  "variables (projr (decodeAndExecute (instr_of DEFVAR [''x:int'']) shadowing_state)) ''x'' = Some (IntV 0)
   \<and> scopes (projr (decodeAndExecute (instr_of DEFVAR [''x:int'']) shadowing_state)) = scopes shadowing_state
   \<and> variables (projr (decodeAndExecute (instr_of STORE [''x'']) shadowing_state)) ''x'' = Some (IntV 7)
   \<and> stack (projr (decodeAndExecute (instr_of STORE [''x'']) shadowing_state)) = []
   \<and> hd (scopes (projr (decodeAndExecute (instr_of STORE [''x'']) shadowing_state))) ''x'' = Some (IntV 1)
   \<and> decodeAndExecute (instr_of STORE [''x'']) fresh_state
       = Inl (AccessError ''Stack underflow during STORE operation'' (- 1), fresh_state)"
  using DEFVAR_STORE_write_global_map[of "instr_of DEFVAR [''x:int'']" "''x:int''" "[]" shadowing_state]
        DEFVAR_STORE_write_global_map[of "instr_of STORE [''x'']" "''x''" "[]" shadowing_state "IntV 7" "[]"]
        DEFVAR_STORE_write_global_map[of "instr_of STORE [''x'']" "''x''" "[]" fresh_state]
  by (simp add: instr_of_def shadowing_state_def fresh_state_def VM_init_def Instruction_default_def)

text \<open>The claim as stated fails on a fresh machine (one empty scope frame): after
  DEFVAR \<open>x\<close> the top scope frame has no \<open>x\<close>.\<close>

theorem DEFVAR_top_scope_counterexample:
  "decodeAndExecute (instr_of DEFVAR [''x'']) fresh_state
     = Inr (fresh_state\<lparr>variables := (variables fresh_state)(''x'' \<mapsto> IntV 0)\<rparr>)
   \<and> scopes fresh_state \<noteq> []
   \<and> hd (scopes (fresh_state\<lparr>variables := (variables fresh_state)(''x'' \<mapsto> IntV 0)\<rparr>)) ''x'' = None"
  by (simp add: decodeAndExecute_def instr_of_def fresh_state_def VM_init_def)

section \<open>PTR_NEW\<close>

lemma PTR_NEW_exact:
  "itype instr = PTR_NEW \<Longrightarrow>
     decodeAndExecute instr s
       = Inr (s\<lparr>stack := PointerV (PointerValue_raw NullPtr ''object'' False False)
                            # drop 1 (stack s)\<rparr>)"
  by (cases "stack s") (simp_all add: decodeAndExecute_def push_back_def pop_back_def)

text \<open>
  Claim C7, as amended. For every machine state, PTR_NEW pops one value if the operand
  stack is not empty and pushes exactly one PointerValue with the type tag
  \<open>object\<close>; when the stack was empty the pointer pushed is a null pointer.
\<close>

theorem PTR_NEW_pushes_object_pointer:
  "itype instr = PTR_NEW \<Longrightarrow>
     \<exists>p. decodeAndExecute instr s = Inr (s\<lparr>stack := PointerV p # drop 1 (stack s)\<rparr>)
          \<and> pv_type p = ''object'' \<and> (stack s = [] \<longrightarrow> isNull p)"
  by (rule exI[of _ "PointerValue_raw NullPtr ''object'' False False"])
     (simp add: PTR_NEW_exact PointerValue_raw_def)

definition size_hint_state :: VM where
  "size_hint_state = fresh_state\<lparr>stack := [IntV 8, StringV ''below'']\<rparr>"

theorem PTR_NEW_pushes_object_pointer_witness:
  "(\<exists>p. decodeAndExecute (instr_of PTR_NEW []) fresh_state = Inr (fresh_state\<lparr>stack := [PointerV p]\<rparr>)
        \<and> pv_type p = ''object'' \<and> isNull p)
   \<and> (\<exists>p. decodeAndExecute (instr_of PTR_NEW []) size_hint_state
              = Inr (size_hint_state\<lparr>stack := [PointerV p, StringV ''below'']\<rparr>)
        \<and> pv_type p = ''object'')"
  using PTR_NEW_pushes_object_pointer[of "instr_of PTR_NEW []" fresh_state]
        PTR_NEW_pushes_object_pointer[of "instr_of PTR_NEW []" size_hint_state]
  by (simp add: instr_of_def fresh_state_def size_hint_state_def VM_init_def)

text \<open>The claim as stated fails on a fresh machine: PTR_NEW pushes a pointer whose
  \<open>isNull\<close> flag is true, and no managed object has been created.\<close>

theorem PTR_NEW_null_counterexample:
  "decodeAndExecute (instr_of PTR_NEW []) fresh_state
     = Inr (fresh_state\<lparr>stack :=
         [PointerV \<lparr>obj = None, ptr = NullPtr, pv_type = ''object'', isNull = True,
                    isWeak = False, isRef = False\<rparr>]\<rparr>)"
  by (simp add: decodeAndExecute_def instr_of_def fresh_state_def VM_init_def push_back_def
        PointerValue_raw_def)

section \<open>The end-to-end scenarios\<close>

text \<open>A run that ends with some fuel ends the same way with more.\<close>

lemma execute_loop_more_fuel:
  "execute_loop n s = Some r \<Longrightarrow> execute_loop (n + k) s = Some r"
proof (induction n arbitrary: s)
  case 0
  then show ?case by (auto simp: execute_loop.simps[of 0 s] execute_loop.simps[of k s] split: if_splits)
next
  case (Suc n)
  show ?case
  proof (cases "running s \<and> unat (pc s) < length (program s)")
    case False
    with Suc.prems show ?thesis
      by (auto simp: execute_loop.simps[of "Suc n" s] execute_loop.simps[of "Suc (n + k)" s])
  next
    case True
    show ?thesis
    proof (cases "decodeAndExecute (program s ! unat (pc s)) s")
      case (Inl e)
      with True Suc.prems show ?thesis
        by (auto simp: execute_loop.simps[of "Suc n" s] execute_loop.simps[of "Suc (n + k)" s])
    next
      case (Inr s1)
      with True Suc.prems have "execute_loop n (s1\<lparr>pc := pc s1 + 1\<rparr>) = Some r"
        by (simp add: execute_loop.simps[of "Suc n" s])
      then have "execute_loop (n + k) (s1\<lparr>pc := pc s1 + 1\<rparr>) = Some r" by (rule Suc.IH)
      with True Inr show ?thesis
        by (simp add: execute_loop.simps[of "Suc (n + k)" s])
    qed
  qed
qed

lemma execute_more_fuel: "execute n s = Some r \<Longrightarrow> execute (n + k) s = Some r"
  by (auto simp: execute_def execute_loop_more_fuel)

text \<open>Every instruction that \<^verbatim>\<open>parseIR\<close> yields has the empty string as its first
  operand: the decoder appends the operands of the line to the three empty strings of
  the constructor, and the interpreter reads \<^verbatim>\<open>operands[0]\<close>.\<close>

lemma parse_line_operands:
  "parse_line n l = Some instr \<Longrightarrow> take 3 (operands instr) = [[], [], []]"
  by (auto simp: parse_line_def Instruction_default_def Let_def split: if_splits list.splits)

lemma parse_lines_operands:
  "instr \<in> set (parse_lines n ls) \<Longrightarrow> take 3 (operands instr) = [[], [], []]"
proof (induction ls arbitrary: n)
  case Nil
  then show ?case by simp
next
  case (Cons l ls)
  then show ?case
    by (cases "parse_line (n + 1) l") (auto dest: parse_line_operands)
qed

lemma parseIR_first_operand_empty:
  "instr \<in> set (parseIR irCode) \<Longrightarrow> operands instr \<noteq> [] \<and> hd (operands instr) = []"
proof -
  assume "instr \<in> set (parseIR irCode)"
  then have "take 3 (operands instr) = [[], [], []]"
    unfolding parseIR_def by (rule parse_lines_operands)
  then show ?thesis by (cases "operands instr") auto
qed

definition stdout_of :: "VM result option \<Rightarrow> string option" where
  "stdout_of r =
     (case r of None \<Rightarrow> None | Some (Inl (e, s)) \<Rightarrow> Some (out s) | Some (Inr s) \<Rightarrow> Some (out s))"

definition error_of :: "VM result option \<Rightarrow> vm_error option" where
  "error_of r = (case r of Some (Inl (e, s)) \<Rightarrow> Some e | _ \<Rightarrow> None)"

definition loop_ir :: string where
  "loop_ir = ''DEFVAR i\<newline>LOAD 0\<newline>STORE i\<newline>LOAD i\<newline>LOAD 3\<newline>BINARY_OP <\<newline>WHILE\<newline>DO\<newline>LOAD i\<newline>PRINT\<newline>LOAD i\<newline>LOAD 1\<newline>BINARY_OP +\<newline>STORE i\<newline>LOAD i\<newline>LOAD 3\<newline>BINARY_OP <\<newline>END\<newline>''"

definition loop_listed :: "Instruction list" where
  "loop_listed =
     [instr_of DEFVAR [''i''], instr_of LOAD [''0''], instr_of STORE [''i''],
      instr_of LOAD [''i''], instr_of LOAD [''3''], instr_of BINARY_OP [''<''],
      instr_of WHILE [], instr_of DO [],
      instr_of LOAD [''i''], instr_of PRINT [],
      instr_of LOAD [''i''], instr_of LOAD [''1''], instr_of BINARY_OP [''+''],
      instr_of STORE [''i''],
      instr_of LOAD [''i''], instr_of LOAD [''3''], instr_of BINARY_OP [''<''],
      instr_of END []]"

definition final_stack :: "VM result option \<Rightarrow> Value list option" where
  "final_stack r = (case r of Some (Inr s) \<Rightarrow> Some (stack s) | _ \<Rightarrow> None)"

lemma decoded_loop:
  "map itype (parseIR loop_ir) = map itype loop_listed
   \<and> map operands (parseIR loop_ir) = map (\<lambda>i. [[], [], []] @ operands i) loop_listed"
  by code_simp

text \<open>
  Claim C1 says that the 18-instruction loop program prints \<open>0\<close>, \<open>1\<close>, \<open>2\<close>, one
  per line. Decoded from its text and run from PC 0, the program prints nothing and
  stops at PC 5 with a type error: every decoded instruction has three empty operands in
  front of its own, so BINARY_OP reads the empty operator. Run from the instruction
  vector as the claim lists it (each operand at index 0), it prints \<open>0\<close> and ends: WHILE
  pushes \<open>pc - 1 = 5\<close> and END finds the boolean of the re-check on top of the stack,
  not an integer, so it does not jump.
\<close>

theorem loop_program_output:
  "stdout_of (run_ir no_files flat_addr 100 loop_ir) = Some []
   \<and> error_of (run_ir no_files flat_addr 100 loop_ir)
       = Some (TypeError ''Unsupported operator for integer: '' 6)
   \<and> stdout_of (execute 100 (fresh_state\<lparr>program := loop_listed\<rparr>)) = Some ''0\<newline>''
   \<and> final_stack (execute 100 (fresh_state\<lparr>program := loop_listed\<rparr>))
       = Some [BoolV True, IntV 5]"
  by code_simp

definition concat_ir :: string where
  "concat_ir =
     ''LOAD '' @ [CHR 0x22] @ ''foo'' @ [CHR 0x22, CHR 0x0A] @
     ''LOAD '' @ [CHR 0x22] @ ''bar'' @ [CHR 0x22, CHR 0x0A] @
     ''BINARY_OP +'' @ [CHR 0x0A] @ ''PRINT'' @ [CHR 0x0A]"

definition concat_listed :: "Instruction list" where
  "concat_listed =
     [instr_of LOAD [''foo''], instr_of LOAD [''bar''], instr_of BINARY_OP [''+''],
      instr_of PRINT []]"

definition quoted :: "string \<Rightarrow> string" where
  "quoted str = [CHR 0x22] @ str @ [CHR 0x22]"

definition concat_quoted :: "Instruction list" where
  "concat_quoted =
     [instr_of LOAD [quoted ''foo''], instr_of LOAD [quoted ''bar''], instr_of BINARY_OP [''+''],
      instr_of PRINT []]"

lemma decoded_concat:
  "map itype (parseIR concat_ir) = map itype concat_listed
   \<and> map operands (parseIR concat_ir) = map (\<lambda>i. [[], [], []] @ operands i) concat_listed"
  by code_simp

text \<open>
  Claim C4 says that the program \<^verbatim>\<open>LOAD "foo"; LOAD "bar"; BINARY_OP +; PRINT\<close>, decoded
  from its text, prints \<open>foobar\<close>. Decoded and run, it prints nothing and stops at PC
  2 with a type error (each LOAD reads the empty operand at index 0 and pushes 0, and
  BINARY_OP reads the empty operator). With the decoded operands at index 0 it prints
  \<open>0\<close>: the decoder has removed the quotes, so LOAD takes \<open>foo\<close> and \<open>bar\<close> for
  undefined variables.
\<close>

theorem concat_program_output:
  "stdout_of (run_ir no_files flat_addr 100 concat_ir) = Some []
   \<and> error_of (run_ir no_files flat_addr 100 concat_ir)
       = Some (TypeError ''Unsupported operator for integer: '' 3)
   \<and> stdout_of (execute 100 (fresh_state\<lparr>program := concat_listed\<rparr>)) = Some ''0\<newline>''"
  by code_simp

text \<open>LOAD pushes a string only when the operand still has its quotes.\<close>

lemma quoted_operands_concatenate:
  "stdout_of (execute 100 (fresh_state\<lparr>program := concat_quoted\<rparr>)) = Some ''foobar\<newline>''"
  by code_simp

section \<open>The two collectors on one heap\<close>

text \<open>\<^verbatim>\<open>GarbageCollector::collect\<close> returns 0 and leaves the reference map as it is,
  whatever it frees.\<close>

lemma gc_collect_count: "fst (gc_collect g) = 0"
  by (simp add: gc_collect_def)

lemma gc_collect_references: "gc_references (snd (gc_collect g)) = gc_references g"
  by (simp add: gc_collect_def gc_sweep_def gc_mark_def)

definition three_objects :: GarbageCollector where
  "three_objects =
     \<lparr>objects = [Some 0, Some 1, Some 2], rootObjects = [Some 0],
      gc_references = [(Some 0, [Some 1]), (Some 2, [Some 1])], mark_bit = (\<lambda>a. False)\<rparr>"

text \<open>
  Claim C2 says that \<open>collect\<close> leaves exactly the reachable cells, purges the freed
  cells from the reference graph and returns the number of cells reclaimed. On three
  objects of which the third is unreachable, \<^verbatim>\<open>GarbageCollector::collect\<close> (gc.cpp) frees
  the third object, returns 0 and leaves the entry of the freed object in the reference
  map. (\<^verbatim>\<open>VMGarbageCollector::collect\<close> does what the claim says: theorems
  \<open>VM_collect_live_set\<close>, \<open>VM_collect_count\<close> and \<open>VM_collect_purged\<close>.)
\<close>

theorem gc_collect_returns_zero:
  "fst (gc_collect three_objects) = 0
   \<and> objects (snd (gc_collect three_objects)) = [Some 0, Some 1]
   \<and> gc_references (snd (gc_collect three_objects)) = [(Some 0, [Some 1]), (Some 2, [Some 1])]"
  by code_simp

lemma VM_collect_same_heap:
  "collect \<lparr>heap = [0, 1, 2 :: nat], roots = [0], references = [(0, [1]), (2, [1])]\<rparr>
     = (1, \<lparr>heap = [0, 1], roots = [0], references = [(0, [1])]\<rparr>)"
  by code_simp

section \<open>Closing a file that was just opened\<close>

definition opened :: "Value \<times> VM" where
  "opened = builtin_open [StringV ''f.txt'', StringV ''w''] (VM_init all_files flat_addr)"

definition close_error :: "(Value \<times> VM) result \<Rightarrow> vm_error option" where
  "close_error r = (case r of Inl (e, s) \<Rightarrow> Some e | Inr _ \<Rightarrow> None)"

text \<open>
  Claim C9 says that \<open>close\<close> right after a successful \<open>open\<close> removes the handle
  and leaves the table as it was. \<open>open\<close> stores the handle id 1000, cast to a pointer,
  in the \<open>data\<close> field of a managed object; \<open>close\<close> erases the table entry and then
  deletes that object, whose destructor passes \<open>data\<close> to \<^verbatim>\<open>std::free\<close>: an invalid
  free, so \<open>close\<close> does not return.
\<close>

theorem close_after_open_invalid_free:
  "fst opened = PointerV \<lparr>obj = Some 0, ptr = IntAddr 1000, pv_type = ''file'', isNull = False,
                          isWeak = False, isRef = False\<rparr>
   \<and> mo_store (snd opened) 0 = Some \<lparr>data = IntAddr 1000, mo_type = ''file'', mo_size = 8, marked = False\<rparr>
   \<and> close_error (builtin_close [fst opened] (snd opened)) = Some (InvalidFree (IntAddr 1000))"
  by code_simp

text \<open>The same on every machine without managed objects where the file opens.\<close>

lemma close_after_open_general:
  assumes "fs_can_open s fname md" and "managedObjects s = []" and "nextFileHandleId s \<noteq> 0"
  shows "\<exists>s'. builtin_close [fst (open_file fname md s)] (snd (open_file fname md s))
               = Inl (InvalidFree (IntAddr (nextFileHandleId s)), s')
             \<and> fileHandles s' = (fileHandles s)(nextFileHandleId s := None)"
  using assms
  by (simp add: open_file_def new_ManagedObject_def builtin_close_def Let_def
        PointerValue_obj_def ptr_to_int64_def destroy_ManagedObject_def is_null_ptr_def throw_def)

text \<open>On a null pointer, on a pointer whose handle is not in the table and on anything
  that is not a pointer, \<open>close\<close> returns -1 and changes nothing.\<close>

lemma close_unknown_handle:
  "isNull p \<or> fileHandles s (ptr_to_int64 (block_addr s) (ptr p)) = None \<Longrightarrow>
     builtin_close (PointerV p # args) s = Inr (IntV (- 1), s)"
  by (auto simp: builtin_close_def)

lemma close_not_a_pointer:
  "\<not> is_pointer v \<Longrightarrow> builtin_close (v # args) s = Inr (IntV (- 1), s)"
  by (cases v) (simp_all add: builtin_close_def is_pointer_def)

end
